theory Spec2Isabelle
  imports Complex_Main "HOL-Library.Sublist" "HOL-Library.AList"
begin

section \<open>Strings and numbers\<close>

text \<open>
  A JavaScript string is modelled by its UTF-8 bytes (\<open>string\<close>, a \<open>char list\<close>); all
  literals of the source are ASCII. \<open>sublist t s\<close> of HOL-Library is \<open>s.includes(t)\<close>:
  \<open>t\<close> occurs in \<open>s\<close> as a contiguous run.

  The \<open>duration\<close> of a request is an integer number of minutes. A template literal renders
  it with \<open>Number::toString\<close>, which for an integer that a double holds exactly and
  whose magnitude is below \<open>10^21\<close> (every integer of magnitude up to \<open>2^53\<close>, so) is its
  decimal numeral, with a leading minus sign when negative. \<open>Number_toString\<close> is that
  numeral; beyond \<open>2^53\<close> the runtime rounds to a double and from \<open>10^21\<close> on writes an
  exponent, which the numeral does not follow. The presets of the interface
  (30, 60, 90, 120) are far inside the exact range.
\<close>

definition digit_char :: "nat \<Rightarrow> char" where
  "digit_char d = ''0123456789'' ! d"

function decimal :: "nat \<Rightarrow> string" where
  "decimal n = (if n < 10 then [digit_char n] else decimal (n div 10) @ [digit_char (n mod 10)])"
  by pat_completeness auto
termination
  by (relation "measure (\<lambda>n. n)") auto

declare decimal.simps [simp del]

definition Number_toString :: "int \<Rightarrow> string" where
  "Number_toString n = (if n < 0 then CHR ''-'' # decimal (nat (- n)) else decimal (nat n))"


section \<open>The tour request and the three prompt builders\<close>

text \<open>
  \<open>interface TourRequest\<close> of the service module, and the presets of the interface:
  the \<open>id\<close>s of \<open>CATEGORIES\<close> and \<open>DURATIONS\<close>.
\<close>

record LatLng =
  latitude :: rat
  longitude :: rat

record TourRequest =
  category :: string
  location :: string
  duration :: int
  latLng :: "LatLng option"

definition CATEGORIES :: "string list" where
  "CATEGORIES = [''Food tour'', ''Nature walk'', ''Points of interest'', ''Historical'']"

definition DURATIONS :: "int list" where
  "DURATIONS = [30, 60, 90, 120]"

text \<open>
  A valid request, as the interface produces it: a category picked from \<open>CATEGORIES\<close>,
  a location that is not empty, a duration picked from \<open>DURATIONS\<close>.
\<close>

definition valid_request :: "TourRequest \<Rightarrow> bool" where
  "valid_request request \<longleftrightarrow>
     category request \<in> set CATEGORIES \<and> location request \<noteq> [] \<and>
     duration request \<in> set DURATIONS"

text \<open>
  The earlier grounded service (\<open>generateWalkingTour\<close> without category instructions):
  the template literal \<open>prompt\<close>, one string literal per source line.
\<close>

definition prompt_part_001 :: "TourRequest \<Rightarrow> string" where
  \<open>prompt_part_001 request =
     ''Create a sequential walking tour itinerary for a "'' @
     category request @
     ''" tour starting from "'' @
     location request @
     ''". \<newline>'' @
     ''  The total duration should be approximately '' @
     Number_toString (duration request) @
     '' minutes.\<newline>'' @
     ''  \<newline>'' @
     ''  For each of the 3-5 main stops in the tour, you MUST:\<newline>'' @
     ''  1. Use the Google Maps tool to find the specific location.\<newline>'' @
     ''  2. List the stop with its official name, a brief description, estimated time, and walking directions.\<newline>'' @
     ''  \<newline>'' @
     ''  CRITICAL: Only use the Google Maps tool for the main stops of the tour. Do not ground the starting location if it's a general area, and do not ground other places mentioned in the descriptions.\<newline>'' @
     ''  \<newline>'' @
     ''  The output should be a clear, step-by-step itinerary.''\<close>

text \<open>
  The later grounded service: \<open>categorySpecificInstructions\<close> starts empty and is set to
  the food guidance when \<open>category === "Food tour"\<close>; the prompt interpolates it on a
  line of its own after the duration line.
\<close>

definition categorySpecificInstructions :: "string \<Rightarrow> string" where
  \<open>categorySpecificInstructions category' =
     (if category' = ''Food tour'' then
        ''\<newline>'' @
        ''    Provide a food tour that includes destinations within a walkable distance from the start point. Select destinations that are unique to the area, such as food stops with historical significance, menu items that include dishes or ingredients unique to the local area or region, or are otherwise highly unique and can only be found in the local area. These destinations should be high quality with a Google maps rating of at least 4 stars. And you should be able to visit each destination and partake in the suggested dish within the requested time.\<newline>'' @
        ''\<newline>'' @
        ''    For each destination, suggest a menu item that is a must try and describe why it is highly recommended. Be fun, interesting, and detailed in your description.''
      else [])\<close>

definition prompt_part_002 :: "TourRequest \<Rightarrow> string" where
  \<open>prompt_part_002 request =
     ''Create a sequential walking tour itinerary for a "'' @
     category request @
     ''" tour starting from "'' @
     location request @
     ''". \<newline>'' @
     ''  The total duration should be approximately '' @
     Number_toString (duration request) @
     '' minutes.\<newline>'' @
     ''  '' @
     categorySpecificInstructions (category request) @
     ''\<newline>'' @
     ''  \<newline>'' @
     ''  For each of the 3-5 main stops in the tour, you MUST:\<newline>'' @
     ''  1. Use the Google Maps tool to find the specific location.\<newline>'' @
     ''  2. List the stop with its official name, a brief description, estimated time, and walking directions.\<newline>'' @
     ''  \<newline>'' @
     ''  CRITICAL: Only use the Google Maps tool for the main stops of the tour. Do not ground the starting location if it's a general area, and do not ground other places mentioned in the descriptions.\<newline>'' @
     ''  \<newline>'' @
     ''  The output should be a clear, step-by-step itinerary.''\<close>

text \<open>The structured-mode prompt of the \<open>/api/generate-tour\<close> handler.\<close>

definition prompt_server :: "TourRequest \<Rightarrow> string" where
  \<open>prompt_server request =
     ''Create a detailed walking tour itinerary for a "'' @
     category request @
     ''" tour starting from "'' @
     location request @
     ''". \<newline>'' @
     ''    The total duration should be approximately '' @
     Number_toString (duration request) @
     '' minutes.\<newline>'' @
     ''    \<newline>'' @
     ''    Use real, existing places. Ensure coordinates are accurate for the specified location.''\<close>

text \<open>The food guidance: what \<open>categorySpecificInstructions\<close> holds for a food tour.\<close>

definition food_guidance :: string where
  "food_guidance = categorySpecificInstructions ''Food tour''"


section \<open>The outbound model call\<close>

text \<open>
  The argument of \<open>ai.models.generateContent\<close>. The two response modes exclude each
  other, so \<open>config\<close> is a tagged variant:
  \<^item> \<open>Grounded l\<close> is \<open>{tools: [{googleMaps: {}}], toolConfig: {retrievalConfig: {latLng: l}}}\<close>;
  \<^item> \<open>Structured m s\<close> is \<open>{responseMimeType: m, responseSchema: s}\<close>.
  A schema is a \<open>Type.STRING\<close>, a \<open>Type.NUMBER\<close>, a \<open>Type.ARRAY\<close> of items, or a
  \<open>Type.OBJECT\<close> with its properties and its required names.
\<close>

datatype schema =
  STRING
  | NUMBER
  | ARRAY schema
  | OBJECT "(string \<times> schema) list" "string list"

datatype config =
  Grounded "LatLng option"
  | Structured string schema

record GenerateContentParameters =
  model :: string
  contents :: string
  config :: config

definition params_part_001 :: "TourRequest \<Rightarrow> GenerateContentParameters" where
  "params_part_001 request =
     \<lparr>model = ''gemini-2.5-flash'', contents = prompt_part_001 request,
      config = Grounded (latLng request)\<rparr>"

definition params_part_002 :: "TourRequest \<Rightarrow> GenerateContentParameters" where
  "params_part_002 request =
     \<lparr>model = ''gemini-2.5-flash'', contents = prompt_part_002 request,
      config = Grounded (latLng request)\<rparr>"

definition latLng_schema :: schema where
  "latLng_schema = OBJECT [(''lat'', NUMBER), (''lng'', NUMBER)] [''lat'', ''lng'']"

definition responseSchema :: schema where
  "responseSchema =
     OBJECT
       [(''tourName'', STRING), (''summary'', STRING), (''totalDistance'', STRING),
        (''stops'', ARRAY (OBJECT
           [(''name'', STRING), (''description'', STRING), (''timeToSpend'', STRING),
            (''lat'', NUMBER), (''lng'', NUMBER)]
           [''name'', ''description'', ''timeToSpend'', ''lat'', ''lng''])),
        (''directions'', ARRAY (OBJECT
           [(''from'', STRING), (''to'', STRING), (''instructions'', STRING),
            (''fromLatLng'', latLng_schema), (''toLatLng'', latLng_schema)]
           [''from'', ''to'', ''instructions'', ''fromLatLng'', ''toLatLng'']))]
       [''tourName'', ''summary'', ''totalDistance'', ''stops'', ''directions'']"

text \<open>The handler destructures \<open>latLng\<close> from the body and does not use it.\<close>

definition params_server :: "TourRequest \<Rightarrow> GenerateContentParameters" where
  "params_server request =
     \<lparr>model = ''gemini-2.5-flash'', contents = prompt_server request,
      config = Structured ''application/json'' responseSchema\<rparr>"


section \<open>Errors, environment and the external service\<close>

text \<open>
  Every failure of the source is a thrown plain \<open>Error\<close>, of which the code reads the
  \<open>message\<close> and nothing else. The constructor is a label of the model for the place
  the error comes from, which the \<open>Error\<close> object itself does not carry:
  \<open>ConfigurationError\<close> is thrown by \<open>getAiClient\<close>, \<open>UpstreamError\<close> is the rejection of
  \<open>generateContent\<close> (with the message the client library gave it, empty when it gave
  none), \<open>ParseError\<close> is thrown by the \<open>catch (parseError)\<close> block. What a catcher can
  tell two errors apart by is \<open>message\<close>.
\<close>

datatype error =
  ConfigurationError string
  | UpstreamError string
  | ParseError string

fun message :: "error \<Rightarrow> string" where
  "message (ConfigurationError m) = m"
| "message (UpstreamError m) = m"
| "message (ParseError m) = m"

text \<open>The variables of \<open>process.env\<close> the code reads; \<open>None\<close> is an unset variable.\<close>

record env =
  GEMINI_API_KEY :: "string option"
  API_KEY :: "string option"
  GOOGLE_MAPS_API_KEY :: "string option"

text \<open>Truthiness of a possibly undefined string: defined and not empty.\<close>

definition truthy_string :: "string option \<Rightarrow> bool" where
  "truthy_string v = (case v of None \<Rightarrow> False | Some s \<Rightarrow> s \<noteq> [])"

text \<open>\<open>process.env.GEMINI_API_KEY || process.env.API_KEY\<close>\<close>

definition credential :: "env \<Rightarrow> string option" where
  "credential e = (if truthy_string (GEMINI_API_KEY e) then GEMINI_API_KEY e else API_KEY e)"

text \<open>
  \<open>getAiClient\<close>: the client is represented by the key it is built with.
\<close>

definition getAiClient :: "env \<Rightarrow> error + string" where
  "getAiClient e =
     (case credential e of
        None \<Rightarrow> Inl (ConfigurationError
          ''Gemini API Key is missing or invalid. Please check your AI Studio secrets.'')
      | Some key \<Rightarrow>
          if key = [] \<or> key = ''MY_GEMINI_API_KEY''
          then Inl (ConfigurationError
            ''Gemini API Key is missing or invalid. Please check your AI Studio secrets.'')
          else Inr key)"

text \<open>
  What the code reads of a response: \<open>response.text\<close> and
  \<open>response.candidates?.[0]?.groundingMetadata?.groundingChunks\<close> (\<open>None\<close> when
  undefined), and of a grounding chunk: \<open>chunk.maps\<close> with its \<open>uri\<close> and \<open>title\<close>.
\<close>

record GroundingChunkMaps =
  uri :: "string option"
  title :: "string option"

record GroundingChunk =
  maps :: "GroundingChunkMaps option"

record GenerateContentResponse =
  response_text :: "string option"
  response_groundingChunks :: "GroundingChunk list option"

text \<open>
  The generative service is outside the repository: a function of the key the client was
  built with and of the parameters of the call, which either rejects (\<open>Inl\<close>, the
  message of the error) or answers. Every operation returns, beside its result, the list
  of calls it made to the service, in order.
\<close>

type_synonym outbound_call = "string option \<times> GenerateContentParameters"

type_synonym models = "string option \<Rightarrow> GenerateContentParameters \<Rightarrow> string + GenerateContentResponse"


section \<open>Grounded mode: the two versions of the service\<close>

record Itinerary =
  "text" :: string
  groundingChunks :: "GroundingChunk list"

text \<open>
  \<open>response.text || "Sorry, ..."\<close> and \<open>... ?.groundingChunks || []\<close>; the client is
  built at module load from \<open>process.env.GEMINI_API_KEY\<close>, with no check by this code.
  The client library is not part of the repository: what it gives back is
  \<open>generateContent\<close>. With the key unset it answers on its own and sends nothing, so a
  call goes out, and is recorded, only for a key that is set.
\<close>

definition grounded_result :: "GenerateContentResponse \<Rightarrow> Itinerary" where
  "grounded_result response =
     \<lparr>text = (case response_text response of
                None \<Rightarrow> ''Sorry, I couldn't generate a tour at this time.''
              | Some t \<Rightarrow> if t \<noteq> [] then t else ''Sorry, I couldn't generate a tour at this time.''),
      groundingChunks = (case response_groundingChunks response of None \<Rightarrow> [] | Some cs \<Rightarrow> cs)\<rparr>"

definition generateWalkingTour_part_001 ::
  "models \<Rightarrow> string option \<Rightarrow> TourRequest \<Rightarrow> (error + Itinerary) \<times> outbound_call list" where
  "generateWalkingTour_part_001 generateContent apiKey request =
     (case generateContent apiKey (params_part_001 request) of
        Inl m \<Rightarrow> Inl (UpstreamError m)
      | Inr response \<Rightarrow> Inr (grounded_result response),
      case apiKey of None \<Rightarrow> [] | Some key \<Rightarrow> [(Some key, params_part_001 request)])"

definition generateWalkingTour_part_002 ::
  "models \<Rightarrow> string option \<Rightarrow> TourRequest \<Rightarrow> (error + Itinerary) \<times> outbound_call list" where
  "generateWalkingTour_part_002 generateContent apiKey request =
     (case generateContent apiKey (params_part_002 request) of
        Inl m \<Rightarrow> Inl (UpstreamError m)
      | Inr response \<Rightarrow> Inr (grounded_result response),
      case apiKey of None \<Rightarrow> [] | Some key \<Rightarrow> [(Some key, params_part_002 request)])"


section \<open>Route URL derivation\<close>

text \<open>
  \<open>encodeURIComponent\<close> on UTF-8 bytes: the unreserved marks stay, every other byte
  becomes a percent sign and two upper-case hexadecimal digits. (The built-in raises
  on a lone surrogate, which a UTF-8 string cannot hold.)
\<close>

definition uriUnreserved :: string where
  \<open>uriUnreserved = ''ABCDEFGHIJKLMNOPQRSTUVWXYZabcdefghijklmnopqrstuvwxyz0123456789-_.!~*'()''\<close>

definition hex_char :: "nat \<Rightarrow> char" where
  "hex_char d = ''0123456789ABCDEF'' ! d"

definition encode_byte :: "char \<Rightarrow> string" where
  "encode_byte c =
     (if c \<in> set uriUnreserved then [c]
      else [CHR ''%'', hex_char (of_char c div 16), hex_char (of_char c mod 16)])"

definition encodeURIComponent :: "string \<Rightarrow> string" where
  "encodeURIComponent s = concat (map encode_byte s)"

text \<open>
  \<open>Array.from(new Set(xs))\<close>: a set keeps its elements in insertion order, and adding
  an element it already holds changes nothing.
\<close>

definition Set_add :: "string list \<Rightarrow> string \<Rightarrow> string list" where
  "Set_add elems x = (if x \<in> set elems then elems else elems @ [x])"

definition Array_from_Set :: "string list \<Rightarrow> string list" where
  "Array_from_Set xs = foldl Set_add [] xs"

text \<open>\<open>Array.prototype.join\<close> and \<open>Array.prototype.slice\<close> (negative indices count from the end).\<close>

fun join :: "string \<Rightarrow> string list \<Rightarrow> string" where
  "join sep [] = []"
| "join sep [x] = x"
| "join sep (x # y # ys) = x @ sep @ join sep (y # ys)"

definition slice :: "int \<Rightarrow> int \<Rightarrow> 'a list \<Rightarrow> 'a list" where
  "slice start end xs =
     (let len = int (length xs);
          k = (if start < 0 then max (len + start) 0 else min start len);
          final = (if end < 0 then max (len + end) 0 else min end len)
      in take (nat (final - k)) (drop (nat k) xs))"

text \<open>\<open>chunk.maps && chunk.maps.title\<close>: the chunk has a \<open>maps\<close> entry with a non-empty title.\<close>

definition has_title :: "GroundingChunk \<Rightarrow> bool" where
  "has_title chunk = (case maps chunk of None \<Rightarrow> False | Some m \<Rightarrow> truthy_string (title m))"

definition maps_title :: "GroundingChunk \<Rightarrow> string" where
  "maps_title chunk = (case maps chunk of None \<Rightarrow> [] | Some m \<Rightarrow> (case title m of None \<Rightarrow> [] | Some t \<Rightarrow> t))"

text \<open>
  \<open>getFullRouteUrl\<close> reads the \<open>itinerary\<close> of the component state (\<open>None\<close> is
  \<open>null\<close>; its \<open>groundingChunks\<close> is an array, which is truthy).
\<close>

definition getFullRouteUrl :: "Itinerary option \<Rightarrow> string option" where
  \<open>getFullRouteUrl itinerary =
     (case itinerary of
        None \<Rightarrow> None
      | Some it \<Rightarrow>
          let places = Array_from_Set (map maps_title (filter has_title (groundingChunks it))) in
          if length places < 2 then
            (if length places = 1
             then Some (''https://www.google.com/maps/search/?api=1&query='' @ encodeURIComponent (places ! 0))
             else None)
          else
            let origin = encodeURIComponent (places ! 0);
                destination = encodeURIComponent (places ! (length places - 1));
                waypoints = (if length places > 2
                             then join ''|'' (map encodeURIComponent (slice 1 (- 1) places))
                             else [])
            in Some (''https://www.google.com/maps/dir/?api=1&origin='' @ origin @
                     ''&destination='' @ destination @
                     (if waypoints \<noteq> [] then ''&waypoints='' @ waypoints else []) @
                     ''&travelmode=walking''))\<close>

text \<open>
  The words of the specification, for comparison: the place titles of the references that
  carry one, and the list that keeps the first occurrence of every title.
\<close>

definition place_titles :: "GroundingChunk list \<Rightarrow> string list" where
  "place_titles chunks =
     concat (map (\<lambda>chunk. case maps chunk of
                             None \<Rightarrow> []
                           | Some m \<Rightarrow> (case title m of None \<Rightarrow> [] | Some t \<Rightarrow> if t = [] then [] else [t]))
                 chunks)"

fun first_seen :: "string list \<Rightarrow> string list" where
  "first_seen [] = []"
| "first_seen (x # xs) = x # filter (\<lambda>y. y \<noteq> x) (first_seen xs)"

text \<open>Pipe-delimited: every element but the last is followed by a pipe.\<close>

fun pipe_delimited :: "string list \<Rightarrow> string" where
  "pipe_delimited [] = []"
| "pipe_delimited xs = concat (map (\<lambda>x. x @ ''|'') (butlast xs)) @ last xs"


section \<open>Structured mode: JSON values\<close>

text \<open>
  What \<open>JSON.parse\<close> returns, and \<open>undefined\<close>, which only a read of a missing
  property yields. A number is the value of the double (\<open>-0\<close> and \<open>0\<close> are both 0, and
  neither is truthy; \<open>JSON.parse\<close> yields no \<open>NaN\<close>). An object is the list of its own
  properties in enumeration order.
\<close>

datatype jsval =
  JUndefined
  | JNull
  | JBool bool
  | JNum rat
  | JStr string
  | JArr "jsval list"
  | JObj "(string \<times> jsval) list"

text \<open>
  The built-ins of the runtime that are not modelled are parameters: \<open>JSON.parse\<close>
  (\<open>None\<close> is its \<open>SyntaxError\<close>), \<open>Number::toString\<close> on doubles, and the
  code units of a string (each as a string), which spreading a string enumerates.
\<close>

record runtime =
  JSON_parse :: "string \<Rightarrow> jsval option"
  Number_text :: "rat \<Rightarrow> string"
  code_units :: "string \<Rightarrow> string list"

fun truthy :: "jsval \<Rightarrow> bool" where
  "truthy JUndefined = False"
| "truthy JNull = False"
| "truthy (JBool b) = b"
| "truthy (JNum q) = (q \<noteq> 0)"
| "truthy (JStr s) = (s \<noteq> [])"
| "truthy (JArr xs) = True"
| "truthy (JObj ps) = True"

definition lookup :: "(string \<times> jsval) list \<Rightarrow> string \<Rightarrow> jsval" where
  "lookup ps k = (case map_of ps k of None \<Rightarrow> JUndefined | Some v \<Rightarrow> v)"

text \<open>
  A property read \<open>v.k\<close>, for the names the handler reads (\<open>stops\<close>, \<open>directions\<close>,
  \<open>lat\<close>, \<open>lng\<close>, \<open>fromLatLng\<close>, \<open>toLatLng\<close>): none of them is an index or a
  built-in property, so the read is \<open>undefined\<close> on an array, string, number or boolean.
  \<open>None\<close> is the \<open>TypeError\<close> of a read from \<open>null\<close> or \<open>undefined\<close>.
\<close>

fun read_property :: "jsval \<Rightarrow> string \<Rightarrow> jsval option" where
  "read_property JUndefined k = None"
| "read_property JNull k = None"
| "read_property (JObj ps) k = Some (lookup ps k)"
| "read_property v k = Some JUndefined"

text \<open>
  \<open>ToString\<close>, as a template literal applies it. An array joins its elements with
  commas, \<open>null\<close> and \<open>undefined\<close> elements giving the empty string. An object is
  \<open>[object Object]\<close>, unless it has a property \<open>toString\<close> of its own: a parsed value is
  not callable, and the conversion raises a \<open>TypeError\<close> (\<open>None\<close>).
\<close>

fun ToString :: "runtime \<Rightarrow> jsval \<Rightarrow> string option" where
  "ToString rt JUndefined = Some ''undefined''"
| "ToString rt JNull = Some ''null''"
| "ToString rt (JBool b) = Some (if b then ''true'' else ''false'')"
| "ToString rt (JNum q) = Some (Number_text rt q)"
| "ToString rt (JStr s) = Some s"
| "ToString rt (JArr xs) =
     map_option (join '','')
       (those (map (\<lambda>x. if x = JUndefined \<or> x = JNull then Some [] else ToString rt x) xs))"
| "ToString rt (JObj ps) =
     (if map_of ps ''toString'' = None then Some ''[object Object]'' else None)"

text \<open>
  The own enumerable properties an object spread \<open>{...v}\<close> copies: those of an object,
  the indexed elements of an array, the indexed code units of a string, none otherwise.
\<close>

fun spread :: "runtime \<Rightarrow> jsval \<Rightarrow> (string \<times> jsval) list" where
  "spread rt (JObj ps) = ps"
| "spread rt (JArr xs) = zip (map decimal [0..<length xs]) xs"
| "spread rt (JStr s) = zip (map decimal [0..<length (code_units rt s)]) (map JStr (code_units rt s))"
| "spread rt v = []"

text \<open>
  An object literal \<open>{...v, k: x}\<close> as the response carries it. \<open>res.json\<close> writes no
  property whose value is \<open>undefined\<close>, so \<open>k: undefined\<close> leaves the object without
  \<open>k\<close>; any other value replaces that of \<open>k\<close>, or is added last.
\<close>

definition with_property :: "string \<Rightarrow> jsval \<Rightarrow> (string \<times> jsval) list \<Rightarrow> jsval" where
  "with_property k x ps = JObj (if x = JUndefined then AList.delete k ps else AList.update k x ps)"


section \<open>Structured mode: the handler of \<open>/api/generate-tour\<close>\<close>

text \<open>
  \<open>String.prototype.trim\<close>: white space and line terminators of ECMAScript, as UTF-8.
\<close>

definition WhiteSpace :: "string list" where
  "WhiteSpace =
     map (\<lambda>c. [c]) [CHR 0x09, CHR 0x0A, CHR 0x0B, CHR 0x0C, CHR 0x0D, CHR 0x20] @
     ([CHR 0xC2, CHR 0xA0] # [CHR 0xE1, CHR 0x9A, CHR 0x80] #
      map (\<lambda>b. [CHR 0xE2, CHR 0x80, b])
        [CHR 0x80, CHR 0x81, CHR 0x82, CHR 0x83, CHR 0x84, CHR 0x85, CHR 0x86, CHR 0x87,
         CHR 0x88, CHR 0x89, CHR 0x8A, CHR 0xA8, CHR 0xA9, CHR 0xAF]) @
     ([CHR 0xE2, CHR 0x81, CHR 0x9F] # [CHR 0xE3, CHR 0x80, CHR 0x80] #
      [CHR 0xEF, CHR 0xBB, CHR 0xBF] # [])"

definition leading :: "string \<Rightarrow> string option" where
  "leading s = find (\<lambda>w. prefix w s) WhiteSpace"

definition trailing :: "string \<Rightarrow> string option" where
  "trailing s = find (\<lambda>w. suffix w s) WhiteSpace"

lemma WhiteSpace_not_Nil: "w \<in> set WhiteSpace \<Longrightarrow> w \<noteq> []"
  by (auto simp: WhiteSpace_def)

lemma leading_shorter: "leading s = Some w \<Longrightarrow> length (drop (length w) s) < length s"
  by (auto simp: leading_def find_Some_iff prefix_def dest!: WhiteSpace_not_Nil [OF nth_mem])

lemma trailing_shorter: "trailing s = Some w \<Longrightarrow> length (take (length s - length w) s) < length s"
  by (auto simp: trailing_def find_Some_iff suffix_def dest!: WhiteSpace_not_Nil [OF nth_mem])

function trimStart :: "string \<Rightarrow> string" where
  "trimStart s = (case leading s of None \<Rightarrow> s | Some w \<Rightarrow> trimStart (drop (length w) s))"
  by pat_completeness auto
termination
  by (relation "measure length") (auto dest: leading_shorter)

function trimEnd :: "string \<Rightarrow> string" where
  "trimEnd s = (case trailing s of None \<Rightarrow> s | Some w \<Rightarrow> trimEnd (take (length s - length w) s))"
  by pat_completeness auto
termination
  by (relation "measure length") (auto dest: trailing_shorter)

declare trimStart.simps [simp del] trimEnd.simps [simp del]

definition trim :: "string \<Rightarrow> string" where
  "trim s = trimEnd (trimStart s)"

text \<open>\<open>MAPS_KEY && MAPS_KEY.trim() !== ""\<close>\<close>

definition maps_key_available :: "string option \<Rightarrow> bool" where
  "maps_key_available MAPS_KEY = (truthy_string MAPS_KEY \<and> (case MAPS_KEY of None \<Rightarrow> False | Some k \<Rightarrow> trim k \<noteq> []))"

text \<open>
  The function mapped over \<open>tour.stops\<close>: \<open>{...stop, imageUrl: stop.lat && stop.lng ? url : undefined}\<close>.
  \<open>None\<close> is a \<open>TypeError\<close>, of a read from a \<open>null\<close> stop or of a conversion.
\<close>

definition stop_imageUrl :: "runtime \<Rightarrow> string \<Rightarrow> jsval \<Rightarrow> jsval option" where
  \<open>stop_imageUrl rt MAPS_KEY stop =
     (case read_property stop ''lat'' of
        None \<Rightarrow> None
      | Some lat \<Rightarrow>
          if truthy lat then
            (case read_property stop ''lng'' of
               None \<Rightarrow> None
             | Some lng \<Rightarrow>
                 if truthy lng then
                   (case (ToString rt lat, ToString rt lng) of
                      (Some lat', Some lng') \<Rightarrow>
                        Some (JStr (''https://maps.googleapis.com/maps/api/staticmap?center='' @
                                    lat' @ '','' @ lng' @
                                    ''&zoom=17&size=800x450&markers=color:red%7C'' @
                                    lat' @ '','' @ lng' @ ''&key='' @ MAPS_KEY))
                    | _ \<Rightarrow> None)
                 else Some JUndefined)
          else Some JUndefined)\<close>

definition enrich_stop :: "runtime \<Rightarrow> string \<Rightarrow> jsval \<Rightarrow> jsval option" where
  "enrich_stop rt MAPS_KEY stop =
     map_option (\<lambda>imageUrl. with_property ''imageUrl'' imageUrl (spread rt stop))
       (stop_imageUrl rt MAPS_KEY stop)"

text \<open>
  The function mapped over \<open>tour.directions\<close>:
  \<open>{...dir, mapUrl: dir.fromLatLng && dir.toLatLng ? url : undefined}\<close>. The reads of
  \<open>lat\<close> and \<open>lng\<close> are from truthy values and cannot raise.
\<close>

definition coordinate :: "runtime \<Rightarrow> jsval \<Rightarrow> string \<Rightarrow> string option" where
  "coordinate rt point k = (case read_property point k of None \<Rightarrow> None | Some v \<Rightarrow> ToString rt v)"

definition direction_mapUrl :: "runtime \<Rightarrow> string \<Rightarrow> jsval \<Rightarrow> jsval option" where
  \<open>direction_mapUrl rt MAPS_KEY dir =
     (case read_property dir ''fromLatLng'' of
        None \<Rightarrow> None
      | Some fromLatLng \<Rightarrow>
          if truthy fromLatLng then
            (case read_property dir ''toLatLng'' of
               None \<Rightarrow> None
             | Some toLatLng \<Rightarrow>
                 if truthy toLatLng then
                   (case (coordinate rt fromLatLng ''lat'', coordinate rt fromLatLng ''lng'',
                          coordinate rt toLatLng ''lat'', coordinate rt toLatLng ''lng'') of
                      (Some flat, Some flng, Some tlat, Some tlng) \<Rightarrow>
                        Some (JStr (''https://maps.googleapis.com/maps/api/staticmap?size=800x450&path=color:0x0000ff%7Cweight:5%7C'' @
                                    flat @ '','' @ flng @ ''%7C'' @ tlat @ '','' @ tlng @
                                    ''&markers=color:blue%7Clabel:A%7C'' @ flat @ '','' @ flng @
                                    ''&markers=color:green%7Clabel:B%7C'' @ tlat @ '','' @ tlng @
                                    ''&key='' @ MAPS_KEY))
                    | _ \<Rightarrow> None)
                 else Some JUndefined)
          else Some JUndefined)\<close>

definition enrich_direction :: "runtime \<Rightarrow> string \<Rightarrow> jsval \<Rightarrow> jsval option" where
  "enrich_direction rt MAPS_KEY dir =
     map_option (\<lambda>mapUrl. with_property ''mapUrl'' mapUrl (spread rt dir))
       (direction_mapUrl rt MAPS_KEY dir)"

text \<open>
  \<open>v.map(f)\<close>: only an array has \<open>map\<close>; on any other value the call raises a
  \<open>TypeError\<close>, as does the first element on which \<open>f\<close> raises.
\<close>

definition array_map :: "(jsval \<Rightarrow> jsval option) \<Rightarrow> jsval \<Rightarrow> jsval option" where
  "array_map f v = (case v of JArr xs \<Rightarrow> map_option JArr (those (map f xs)) | _ \<Rightarrow> None)"

text \<open>\<open>if (!tour.k) tour.k = []\<close> on the properties of an object.\<close>

definition default_array :: "string \<Rightarrow> (string \<times> jsval) list \<Rightarrow> (string \<times> jsval) list" where
  "default_array k ps = (if truthy (lookup ps k) then ps else AList.update k (JArr []) ps)"

text \<open>The two assignments \<open>tour.stops = tour.stops.map(...)\<close> and \<open>tour.directions = ...\<close>.\<close>

definition enrich :: "runtime \<Rightarrow> string \<Rightarrow> (string \<times> jsval) list \<Rightarrow> (string \<times> jsval) list option" where
  "enrich rt MAPS_KEY ps =
     (case array_map (enrich_stop rt MAPS_KEY) (lookup ps ''stops'') of
        None \<Rightarrow> None
      | Some stops \<Rightarrow>
          (case array_map (enrich_direction rt MAPS_KEY)
                  (lookup (AList.update ''stops'' stops ps) ''directions'') of
             None \<Rightarrow> None
           | Some directions \<Rightarrow>
               Some (AList.update ''directions'' directions (AList.update ''stops'' stops ps))))"

text \<open>
  The statements of the inner \<open>try\<close> after \<open>JSON.parse\<close>, by the kind of the parsed value;
  \<open>None\<close> is an exception.
  \<^item> An object: the two defaults, the enrichment when the maps key is available, \<open>res.json\<close>.
  \<^item> An array: \<open>stops\<close> and \<open>directions\<close> are undefined and become named properties
    holding \<open>[]\<close>, whose maps are \<open>[]\<close>; \<open>res.json\<close> writes the elements of the array only.
  \<^item> \<open>null\<close>: the read \<open>tour.stops\<close> raises. A string, number or boolean: the read is
    undefined and the assignment \<open>tour.stops = []\<close> raises, the module being strict code.
\<close>

fun respond :: "runtime \<Rightarrow> string option \<Rightarrow> jsval \<Rightarrow> jsval option" where
  "respond rt MAPS_KEY (JObj ps) =
     (if maps_key_available MAPS_KEY
      then map_option JObj
             (enrich rt (case MAPS_KEY of None \<Rightarrow> [] | Some k \<Rightarrow> k)
                (default_array ''directions'' (default_array ''stops'' ps)))
      else Some (JObj (default_array ''directions'' (default_array ''stops'' ps))))"
| "respond rt MAPS_KEY (JArr xs) = Some (JArr xs)"
| "respond rt MAPS_KEY v = None"

text \<open>
  The inner \<open>try\<close> with its \<open>catch\<close>: whatever is raised in it, by \<open>JSON.parse\<close> or
  after, is replaced by one error.
\<close>

definition parse_response :: "runtime \<Rightarrow> string option \<Rightarrow> string \<Rightarrow> error + jsval" where
  "parse_response rt MAPS_KEY rawText =
     (case (case JSON_parse rt rawText of None \<Rightarrow> None | Some tour \<Rightarrow> respond rt MAPS_KEY tour) of
        None \<Rightarrow> Inl (ParseError ''Failed to parse AI response as JSON'')
      | Some tour \<Rightarrow> Inr tour)"

text \<open>
  The outer \<open>try\<close>: the client, the prompt, the call, \<open>response.text || ""\<close>, the inner
  \<open>try\<close>. The result is the tour passed to \<open>res.json\<close> or the error that reaches the
  outer \<open>catch\<close>, with the calls made.
\<close>

definition generate_tour ::
  "runtime \<Rightarrow> env \<Rightarrow> models \<Rightarrow> TourRequest \<Rightarrow> (error + jsval) \<times> outbound_call list" where
  "generate_tour rt e generateContent request =
     (case getAiClient e of
        Inl err \<Rightarrow> (Inl err, [])
      | Inr key \<Rightarrow>
          (case generateContent (Some key) (params_server request) of
             Inl m \<Rightarrow> Inl (UpstreamError m)
           | Inr response \<Rightarrow>
               parse_response rt (GOOGLE_MAPS_API_KEY e)
                 (case response_text response of None \<Rightarrow> [] | Some t \<Rightarrow> t),
           [(Some key, params_server request)]))"

text \<open>
  The response of the endpoint: \<open>res.json(tour)\<close> with the default status, or
  \<open>res.status(500).json({ error: error.message || "Failed to generate tour" })\<close>.
\<close>

record http_response =
  status :: nat
  body :: jsval

definition error_response :: "error \<Rightarrow> http_response" where
  "error_response err =
     \<lparr>status = 500,
      body = JObj [(''error'', JStr (if message err \<noteq> [] then message err else ''Failed to generate tour''))]\<rparr>"

definition post_generate_tour ::
  "runtime \<Rightarrow> env \<Rightarrow> models \<Rightarrow> TourRequest \<Rightarrow> http_response \<times> outbound_call list" where
  "post_generate_tour rt e generateContent request =
     (case generate_tour rt e generateContent request of
        (Inl err, calls) \<Rightarrow> (error_response err, calls)
      | (Inr tour, calls) \<Rightarrow> (\<lparr>status = 200, body = tour\<rparr>, calls))"

section \<open>Reading a returned tour\<close>

text \<open>
  For the statements about a returned tour: the elements of an array (none for any
  other value), whether a value is an object with a given property, and the value of
  a property read (\<open>undefined\<close> where the read would raise).
\<close>

definition items :: "jsval \<Rightarrow> jsval list" where
  "items v = (case v of JArr xs \<Rightarrow> xs | _ \<Rightarrow> [])"

definition has_property :: "jsval \<Rightarrow> string \<Rightarrow> bool" where
  "has_property v k = (case v of JObj ps \<Rightarrow> map_of ps k \<noteq> None | _ \<Rightarrow> False)"

definition field :: "jsval \<Rightarrow> string \<Rightarrow> jsval" where
  "field v k = (case read_property v k of None \<Rightarrow> JUndefined | Some x \<Rightarrow> x)"



section \<open>Example inputs\<close>

text \<open>
  Concrete inputs on which the theorems are evaluated: two requests, an itinerary with a
  repeated place and a reference without a place, two environments, a service that
  rejects every call, one that rejects with a given message and one that answers with
  a given text, a runtime that parses two bodies and renders a number by the numeral
  of its integer part, and one that parses a body whose stop has an \<open>imageUrl\<close>.
\<close>

definition food_request :: TourRequest where
  "food_request = \<lparr>category = ''Food tour'', location = ''Paris'', duration = 60, latLng = None\<rparr>"

definition nature_request :: TourRequest where
  "nature_request = \<lparr>category = ''Nature walk'', location = ''Paris'', duration = 60, latLng = None\<rparr>"

definition place_chunk :: "string \<Rightarrow> GroundingChunk" where
  "place_chunk t = \<lparr>maps = Some \<lparr>uri = None, title = Some t\<rparr>\<rparr>"

definition example_itinerary :: Itinerary where
  "example_itinerary =
     \<lparr>text = ''A tour'',
      groundingChunks = [place_chunk ''A'', \<lparr>maps = None\<rparr>, place_chunk ''B'', place_chunk ''C'', place_chunk ''B'']\<rparr>"

definition rejecting :: models where
  "rejecting apiKey params = Inl ''API key not valid. Please pass a valid API key.''"

definition placeholder_env :: env where
  "placeholder_env =
     \<lparr>GEMINI_API_KEY = Some ''MY_GEMINI_API_KEY'', API_KEY = Some ''secret'',
      GOOGLE_MAPS_API_KEY = None\<rparr>"

definition example_runtime :: runtime where
  \<open>example_runtime =
     \<lparr>JSON_parse = (\<lambda>s. if s = ''{"tourName":"Old town"}'' then Some (JObj [(''tourName'', JStr ''Old town'')])
                        else if s = ''{"stops":[{"name":"Tower","lat":48,"lng":2}]}''
                        then Some (JObj [(''stops'', JArr [JObj [(''name'', JStr ''Tower''), (''lat'', JNum 48), (''lng'', JNum 2)]])])
                        else None),
      Number_text = (\<lambda>q. Number_toString (floor q)),
      code_units = map (\<lambda>c. [c])\<rparr>\<close>

definition working_env :: env where
  "working_env =
     \<lparr>GEMINI_API_KEY = None, API_KEY = Some ''secret'', GOOGLE_MAPS_API_KEY = Some ''  ''\<rparr>"

definition answering :: "string \<Rightarrow> models" where
  "answering t apiKey params = Inr \<lparr>response_text = Some t, response_groundingChunks = None\<rparr>"

definition rejecting_with :: "string \<Rightarrow> models" where
  "rejecting_with m apiKey params = Inl m"

definition supplied_image_runtime :: runtime where
  \<open>supplied_image_runtime =
     \<lparr>JSON_parse = (\<lambda>s. if s = ''{"stops":[{"name":"Tower","lat":48,"lng":2,"imageUrl":"x"}]}''
                        then Some (JObj [(''stops'', JArr [JObj [(''name'', JStr ''Tower''), (''lat'', JNum 48),
                                                               (''lng'', JNum 2), (''imageUrl'', JStr ''x'')]])])
                        else None),
      Number_text = (\<lambda>q. Number_toString (floor q)),
      code_units = map (\<lambda>c. [c])\<rparr>\<close>


section \<open>Facts about the prompts\<close>

lemma sublist_after: "sublist xs zs \<Longrightarrow> sublist xs (ys @ zs)"
  by (simp add: sublist_append)

lemma sublist_here: "sublist xs (xs @ zs)"
  by simp

lemma Number_toString_presets:
  "Number_toString 30 = ''30''" "Number_toString 60 = ''60''"
  "Number_toString 90 = ''90''" "Number_toString 120 = ''120''"
  by (simp_all add: Number_toString_def decimal.simps digit_char_def)

lemma digit_char_digits: "d < 10 \<Longrightarrow> digit_char d \<in> set ''0123456789''"
  unfolding digit_char_def by (rule nth_mem) simp

lemma decimal_digits: "set (decimal n) \<subseteq> set ''0123456789''"
proof (induction n rule: decimal.induct)
  case (1 n)
  define S where "S = set ''0123456789''"
  have d: "\<And>k. k < 10 \<Longrightarrow> digit_char k \<in> S"
    unfolding S_def by (rule digit_char_digits)
  show ?case
  proof (cases "n < 10")
    case True
    then have "decimal n = [digit_char n]"
      by (subst decimal.simps) simp
    with d [OF True] show ?thesis
      unfolding S_def [symmetric] by simp
  next
    case False
    then have eq: "decimal n = decimal (n div 10) @ [digit_char (n mod 10)]"
      by (subst decimal.simps) simp
    have "n mod 10 < 10" by simp
    then have "digit_char (n mod 10) \<in> S"
      by (rule d)
    moreover have "set (decimal (n div 10)) \<subseteq> S"
      using 1 False unfolding S_def by simp
    ultimately show ?thesis
      unfolding S_def [symmetric] eq by simp
  qed
qed

lemma Number_toString_chars: "set (Number_toString n) \<subseteq> set ''-0123456789''"
proof -
  define S where "S = set ''-0123456789''"
  have "set ''0123456789'' \<subseteq> S"
    unfolding S_def by (simp add: subset_insertI)
  then have "set (decimal k) \<subseteq> S" for k
    using decimal_digits [of k] by (rule order_trans [rotated])
  moreover have "CHR ''-'' \<in> S"
    unfolding S_def by simp
  ultimately show ?thesis
    unfolding Number_toString_def S_def [symmetric] by simp
qed

lemma decimal_not_Nil: "decimal n \<noteq> []"
  by (subst decimal.simps) simp

lemma Number_toString_not_Nil: "Number_toString n \<noteq> []"
  by (simp add: Number_toString_def decimal_not_Nil)


lemma sublist_sep:
  assumes "c \<notin> set xs"
  shows "sublist xs (ys @ c # zs) \<longleftrightarrow> sublist xs ys \<or> sublist xs zs"
proof
  assume "sublist xs (ys @ c # zs)"
  then consider "sublist xs ys" | "sublist xs (c # zs)"
    | xs1 xs2 where "xs = xs1 @ xs2" "suffix xs1 ys" "prefix xs2 (c # zs)" "xs1 \<noteq> []" "xs2 \<noteq> []"
    unfolding sublist_append by (metis append_Nil append_Nil2 prefix_imp_sublist suffix_imp_sublist)
  then show "sublist xs ys \<or> sublist xs zs"
  proof cases
    case 1
    then show ?thesis by simp
  next
    case 2
    then have "prefix xs (c # zs) \<or> sublist xs zs"
      by (simp add: sublist_Cons_right)
    moreover have "\<not> prefix xs (c # zs) \<or> xs = []"
      using assms by (cases xs) auto
    ultimately show ?thesis by auto
  next
    case 3
    then obtain x xs2' where "xs2 = x # xs2'" by (cases xs2) auto
    with 3 have "x = c" by simp
    with 3 \<open>xs2 = x # xs2'\<close> assms show ?thesis by simp
  qed
next
  assume "sublist xs ys \<or> sublist xs zs"
  then show "sublist xs (ys @ c # zs)"
    by (auto simp: sublist_append sublist_Cons_right)
qed

lemma not_sublist_marker: "c \<in> set xs \<Longrightarrow> c \<notin> set ys \<Longrightarrow> \<not> sublist xs ys"
  using set_mono_sublist by fastforce

lemma quoted_template:
  assumes q: "q \<notin> set g" and m: "m \<in> set g"
    and a: "m \<notin> set a" and b: "m \<notin> set b" and c: "m \<notin> set c"
  shows "sublist g (a @ q # cat @ q # b @ q # loc @ q # c) \<longleftrightarrow> sublist g cat \<or> sublist g loc"
proof -
  have "\<not> sublist g a" "\<not> sublist g b" "\<not> sublist g c"
    using m a b c by (auto dest: not_sublist_marker)
  then show ?thesis
    using q by (simp add: sublist_sep)
qed

lemma food_guidance_marks:
  "CHR 0x22 \<notin> set food_guidance" "CHR ''P'' \<in> set food_guidance"
  by (simp_all add: food_guidance_def categorySpecificInstructions_def)

lemma food_guidance_length: "length food_guidance = 715"
  by (simp add: food_guidance_def categorySpecificInstructions_def)

lemma Number_toString_no_P: "CHR ''P'' \<notin> set (Number_toString n)"
proof
  assume "CHR ''P'' \<in> set (Number_toString n)"
  with Number_toString_chars [of n] have "CHR ''P'' \<in> set ''-0123456789''"
    by (rule subsetD)
  then show False by simp
qed

lemma part_001_guidance:
  "sublist food_guidance (prompt_part_001 request) \<longleftrightarrow>
     sublist food_guidance (category request) \<or> sublist food_guidance (location request)"
proof -
  define c where \<open>c =
     ''. \<newline>'' @
     ''  The total duration should be approximately '' @
     Number_toString (duration request) @
     '' minutes.\<newline>'' @
     ''  \<newline>'' @
     ''  For each of the 3-5 main stops in the tour, you MUST:\<newline>'' @
     ''  1. Use the Google Maps tool to find the specific location.\<newline>'' @
     ''  2. List the stop with its official name, a brief description, estimated time, and walking directions.\<newline>'' @
     ''  \<newline>'' @
     ''  CRITICAL: Only use the Google Maps tool for the main stops of the tour. Do not ground the starting location if it's a general area, and do not ground other places mentioned in the descriptions.\<newline>'' @
     ''  \<newline>'' @
     ''  The output should be a clear, step-by-step itinerary.''\<close>
  have shape: \<open>prompt_part_001 request =
      ''Create a sequential walking tour itinerary for a '' @ CHR 0x22 # category request @
      CHR 0x22 # '' tour starting from '' @ CHR 0x22 # location request @ CHR 0x22 # c\<close>
    by (simp add: prompt_part_001_def c_def)
  have "CHR ''P'' \<notin> set c"
    unfolding c_def using Number_toString_no_P [of "duration request"] by simp
  then show ?thesis
    unfolding shape
    by (intro quoted_template [where m = "CHR ''P''", OF food_guidance_marks]) simp_all
qed

lemma server_guidance:
  "sublist food_guidance (prompt_server request) \<longleftrightarrow>
     sublist food_guidance (category request) \<or> sublist food_guidance (location request)"
proof -
  define c where \<open>c =
     ''. \<newline>'' @
     ''    The total duration should be approximately '' @
     Number_toString (duration request) @
     '' minutes.\<newline>'' @
     ''    \<newline>'' @
     ''    Use real, existing places. Ensure coordinates are accurate for the specified location.''\<close>
  have shape: \<open>prompt_server request =
      ''Create a detailed walking tour itinerary for a '' @ CHR 0x22 # category request @
      CHR 0x22 # '' tour starting from '' @ CHR 0x22 # location request @ CHR 0x22 # c\<close>
    by (simp add: prompt_server_def c_def)
  have "CHR ''P'' \<notin> set c"
    unfolding c_def using Number_toString_no_P [of "duration request"] by simp
  then show ?thesis
    unfolding shape
    by (intro quoted_template [where m = "CHR ''P''", OF food_guidance_marks]) simp_all
qed

lemma part_002_guidance_food:
  assumes "category request = ''Food tour''"
  shows "sublist food_guidance (prompt_part_002 request)"
  unfolding prompt_part_002_def food_guidance_def assms
  by (rule sublist_here | rule sublist_after)+

lemma part_002_guidance_other:
  assumes "category request \<noteq> ''Food tour''"
  shows "sublist food_guidance (prompt_part_002 request) \<longleftrightarrow>
     sublist food_guidance (category request) \<or> sublist food_guidance (location request)"
proof -
  define c where \<open>c =
     ''. \<newline>'' @
     ''  The total duration should be approximately '' @
     Number_toString (duration request) @
     '' minutes.\<newline>'' @
     ''  '' @
     ''\<newline>'' @
     ''  \<newline>'' @
     ''  For each of the 3-5 main stops in the tour, you MUST:\<newline>'' @
     ''  1. Use the Google Maps tool to find the specific location.\<newline>'' @
     ''  2. List the stop with its official name, a brief description, estimated time, and walking directions.\<newline>'' @
     ''  \<newline>'' @
     ''  CRITICAL: Only use the Google Maps tool for the main stops of the tour. Do not ground the starting location if it's a general area, and do not ground other places mentioned in the descriptions.\<newline>'' @
     ''  \<newline>'' @
     ''  The output should be a clear, step-by-step itinerary.''\<close>
  from assms have none: "categorySpecificInstructions (category request) = []"
    by (simp add: categorySpecificInstructions_def)
  have shape: \<open>prompt_part_002 request =
      ''Create a sequential walking tour itinerary for a '' @ CHR 0x22 # category request @
      CHR 0x22 # '' tour starting from '' @ CHR 0x22 # location request @ CHR 0x22 # c\<close>
    by (simp add: prompt_part_002_def c_def none)
  have "CHR ''P'' \<notin> set c"
    unfolding c_def using Number_toString_no_P [of "duration request"] by simp
  then show ?thesis
    unfolding shape
    by (intro quoted_template [where m = "CHR ''P''", OF food_guidance_marks]) simp_all
qed

lemma part_002_guidance:
  "sublist food_guidance (prompt_part_002 request) \<longleftrightarrow>
     category request = ''Food tour'' \<or>
     sublist food_guidance (category request) \<or> sublist food_guidance (location request)"
  using part_002_guidance_food [of request] part_002_guidance_other [of request] by blast

lemma prompt_lengths:
  "length (prompt_part_001 request) =
     612 + length (category request) + length (location request) +
     length (Number_toString (duration request))"
  "length (prompt_part_002 request) =
     615 + length (category request) + length (location request) +
     length (Number_toString (duration request)) +
     length (categorySpecificInstructions (category request))"
  by (simp_all add: prompt_part_001_def prompt_part_002_def)

lemma short_no_guidance: "length s < 715 \<Longrightarrow> \<not> sublist food_guidance s"
  using sublist_length_le [of food_guidance s] by (auto simp: food_guidance_length)


text \<open>
  C6. For every valid request (a supported category, a location that is not empty, a
  preset duration), each of the three prompts contains the category, the location and
  the decimal numeral of the duration as contiguous substrings; the numeral is one of
  30, 60, 90, 120.
\<close>

theorem prompt_quotes_request:
  assumes "valid_request request"
  shows "(\<forall>prompt \<in> {prompt_part_001 request, prompt_part_002 request, prompt_server request}.
           sublist (category request) prompt \<and> sublist (location request) prompt \<and>
           sublist (Number_toString (duration request)) prompt) \<and>
         Number_toString (duration request) \<in> {''30'', ''60'', ''90'', ''120''}"
proof -
  have "sublist (category request) (prompt_part_001 request)"
    unfolding prompt_part_001_def by (rule sublist_here | rule sublist_after)+
  moreover have "sublist (location request) (prompt_part_001 request)"
    unfolding prompt_part_001_def by (rule sublist_here | rule sublist_after)+
  moreover have "sublist (Number_toString (duration request)) (prompt_part_001 request)"
    unfolding prompt_part_001_def by (rule sublist_here | rule sublist_after)+
  moreover have "sublist (category request) (prompt_part_002 request)"
    unfolding prompt_part_002_def by (rule sublist_here | rule sublist_after)+
  moreover have "sublist (location request) (prompt_part_002 request)"
    unfolding prompt_part_002_def by (rule sublist_here | rule sublist_after)+
  moreover have "sublist (Number_toString (duration request)) (prompt_part_002 request)"
    unfolding prompt_part_002_def by (rule sublist_here | rule sublist_after)+
  moreover have "sublist (category request) (prompt_server request)"
    unfolding prompt_server_def by (rule sublist_here | rule sublist_after)+
  moreover have "sublist (location request) (prompt_server request)"
    unfolding prompt_server_def by (rule sublist_here | rule sublist_after)+
  moreover have "sublist (Number_toString (duration request)) (prompt_server request)"
    unfolding prompt_server_def by (rule sublist_here | rule sublist_after)+
  moreover have "Number_toString (duration request) \<in> {''30'', ''60'', ''90'', ''120''}"
  proof -
    from assms have "duration request \<in> {30, 60, 90, 120}"
      by (simp add: valid_request_def DURATIONS_def)
    then show ?thesis
      using Number_toString_presets by auto
  qed
  ultimately show ?thesis by blast
qed

theorem prompt_quotes_request_witness:
  "valid_request nature_request \<and>
   sublist ''Nature walk'' (prompt_server nature_request) \<and>
   sublist ''Paris'' (prompt_part_002 nature_request) \<and>
   sublist ''60'' (prompt_part_001 nature_request)"
  using prompt_quotes_request [of nature_request]
  by (simp add: nature_request_def valid_request_def CATEGORIES_def DURATIONS_def
      Number_toString_presets)

text \<open>
  C2, as stated, fails: for a food tour neither the earlier grounded service nor the
  structured-mode handler puts the food guidance into its prompt.
\<close>

theorem guidance_every_mode_counterexample:
  "category food_request = ''Food tour'' \<and>
   \<not> sublist food_guidance (prompt_server food_request) \<and>
   \<not> sublist food_guidance (prompt_part_001 food_request)"
  by (simp add: server_guidance part_001_guidance food_request_def short_no_guidance)

text \<open>
  C2, amended. Only the later grounded service adds guidance: its prompt contains the
  food guidance exactly when the category is \<open>Food tour\<close> or the caller's own category or
  location text contains the guidance. The earlier grounded service and the
  structured-mode handler never add it: their prompts contain it exactly when the
  category or location text does.
\<close>

theorem guidance_only_in_later_grounded_prompt:
  "(sublist food_guidance (prompt_part_002 request) \<longleftrightarrow>
      category request = ''Food tour'' \<or>
      sublist food_guidance (category request) \<or> sublist food_guidance (location request)) \<and>
   (sublist food_guidance (prompt_part_001 request) \<longleftrightarrow>
      sublist food_guidance (category request) \<or> sublist food_guidance (location request)) \<and>
   (sublist food_guidance (prompt_server request) \<longleftrightarrow>
      sublist food_guidance (category request) \<or> sublist food_guidance (location request))"
  using part_002_guidance [of request] part_001_guidance [of request] server_guidance [of request]
  by blast

theorem guidance_only_in_later_grounded_prompt_witness:
  "sublist food_guidance (prompt_part_002 food_request) \<and>
   \<not> sublist food_guidance (prompt_part_002 nature_request)"
  using guidance_only_in_later_grounded_prompt [of food_request]
    guidance_only_in_later_grounded_prompt [of nature_request]
  by (simp add: food_request_def nature_request_def short_no_guidance)

text \<open>
  C10, as stated, fails: for a nature walk the two grounded services send different
  prompts.
\<close>

theorem grounded_prompts_identical_counterexample:
  "category nature_request \<noteq> ''Food tour'' \<and>
   contents (params_part_001 nature_request) \<noteq> contents (params_part_002 nature_request)"
proof -
  have "length (prompt_part_001 nature_request) \<noteq> length (prompt_part_002 nature_request)"
    by (simp add: prompt_lengths categorySpecificInstructions_def nature_request_def)
  then have "prompt_part_001 nature_request \<noteq> prompt_part_002 nature_request"
    by auto
  then show ?thesis
    by (simp add: params_part_001_def params_part_002_def nature_request_def)
qed

text \<open>
  C10, amended. For a category other than \<open>Food tour\<close> the later prompt is the earlier
  one with one more line of two spaces, inserted after the line of the duration; the
  model name and the configuration of the two calls are the same.
\<close>

theorem grounded_prompts_differ_by_a_blank_line:
  assumes "category request \<noteq> ''Food tour''"
  shows "(\<exists>pre post. suffix '' minutes.\<newline>'' pre \<and>
            prompt_part_001 request = pre @ post \<and>
            prompt_part_002 request = pre @ ''  \<newline>'' @ post) \<and>
         model (params_part_001 request) = model (params_part_002 request) \<and>
         config (params_part_001 request) = config (params_part_002 request)"
proof -
  define pre where \<open>pre =
     (''Create a sequential walking tour itinerary for a "'' @
      category request @
      ''" tour starting from "'' @
      location request @
      ''". \<newline>'' @
      ''  The total duration should be approximately '' @
      Number_toString (duration request)) @
     '' minutes.\<newline>''\<close>
  define post where \<open>post =
     ''  \<newline>'' @
     ''  For each of the 3-5 main stops in the tour, you MUST:\<newline>'' @
     ''  1. Use the Google Maps tool to find the specific location.\<newline>'' @
     ''  2. List the stop with its official name, a brief description, estimated time, and walking directions.\<newline>'' @
     ''  \<newline>'' @
     ''  CRITICAL: Only use the Google Maps tool for the main stops of the tour. Do not ground the starting location if it's a general area, and do not ground other places mentioned in the descriptions.\<newline>'' @
     ''  \<newline>'' @
     ''  The output should be a clear, step-by-step itinerary.''\<close>
  from assms have none: "categorySpecificInstructions (category request) = []"
    by (simp add: categorySpecificInstructions_def)
  have "suffix '' minutes.\<newline>'' pre"
    unfolding pre_def by (rule suffixI) (rule refl)
  moreover have "prompt_part_001 request = pre @ post"
    by (simp add: prompt_part_001_def pre_def post_def)
  moreover have "prompt_part_002 request = pre @ ''  \<newline>'' @ post"
    by (simp add: prompt_part_002_def pre_def post_def none)
  ultimately show ?thesis
    by (auto simp: params_part_001_def params_part_002_def)
qed

theorem grounded_prompts_differ_by_a_blank_line_witness:
  "category nature_request \<noteq> ''Food tour'' \<and>
   length (prompt_part_002 nature_request) = length (prompt_part_001 nature_request) + 3 \<and>
   config (params_part_001 nature_request) = config (params_part_002 nature_request)"
proof -
  have "category nature_request \<noteq> ''Food tour''"
    by (simp add: nature_request_def)
  from grounded_prompts_differ_by_a_blank_line [OF this] show ?thesis
    by (auto simp: nature_request_def)
qed


section \<open>Facts about the route URL\<close>

lemma foldl_Set_add:
  "foldl Set_add acc xs = acc @ filter (\<lambda>x. x \<notin> set acc) (first_seen xs)"
proof (induction xs arbitrary: acc)
  case Nil
  then show ?case by simp
next
  case (Cons x xs)
  show ?case
  proof (cases "x \<in> set acc")
    case True
    then have "filter (\<lambda>y. y \<notin> set acc) (filter (\<lambda>y. y \<noteq> x) (first_seen xs)) =
               filter (\<lambda>y. y \<notin> set acc) (first_seen xs)"
      by (auto intro: filter_cong)
    moreover from True have "Set_add acc x = acc"
      by (simp add: Set_add_def)
    ultimately show ?thesis
      using True Cons.IH [of acc] by simp
  next
    case False
    then have "Set_add acc x = acc @ [x]"
      by (simp add: Set_add_def)
    with False show ?thesis
      using Cons.IH [of "acc @ [x]"] by (simp add: conj_commute)
  qed
qed

lemma Array_from_Set_first_seen: "Array_from_Set xs = first_seen xs"
  by (simp add: Array_from_Set_def foldl_Set_add)

lemma set_first_seen: "set (first_seen xs) = set xs"
  by (induction xs) auto

lemma distinct_first_seen: "distinct (first_seen xs)"
  by (induction xs) (auto simp: set_first_seen)

lemma titles_place_titles: "map maps_title (filter has_title chunks) = place_titles chunks"
  by (induction chunks)
     (auto simp: place_titles_def has_title_def maps_title_def truthy_string_def split: option.splits)

lemma place_titles_not_Nil: "t \<in> set (place_titles chunks) \<Longrightarrow> t \<noteq> []"
  by (auto simp: place_titles_def split: option.splits if_splits)

lemma encode_byte_not_Nil: "encode_byte c \<noteq> []"
  by (simp add: encode_byte_def)

lemma encodeURIComponent_Nil: "encodeURIComponent s = [] \<longleftrightarrow> s = []"
  by (cases s) (simp_all add: encodeURIComponent_def encode_byte_not_Nil)

lemma join_pipe_delimited: "join ''|'' xs = pipe_delimited xs"
  by (induction "''|''" xs rule: join.induct) simp_all

lemma join_not_Nil: "xs \<noteq> [] \<Longrightarrow> [] \<notin> set xs \<Longrightarrow> join sep xs \<noteq> []"
  by (induction sep xs rule: join.induct) auto

lemma slice_interior: "slice 1 (- 1) xs = butlast (tl xs)"
  by (simp add: slice_def Let_def butlast_conv_take drop_Suc min_def max_def nat_diff_distrib numeral_2_eq_2)

lemma route_of_places:
  assumes "places = first_seen (place_titles (groundingChunks it))"
  shows "getFullRouteUrl (Some it) =
     (case places of
        [] \<Rightarrow> None
      | [p] \<Rightarrow> Some (''https://www.google.com/maps/search/?api=1&query='' @ encodeURIComponent p)
      | origin # p # ps \<Rightarrow>
          Some (''https://www.google.com/maps/dir/?api=1&origin='' @ encodeURIComponent origin @
                ''&destination='' @ encodeURIComponent (last (p # ps)) @
                (if ps = [] then []
                 else ''&waypoints='' @ pipe_delimited (map encodeURIComponent (butlast (p # ps)))) @
                ''&travelmode=walking''))"
proof -
  have places: "Array_from_Set (map maps_title (filter has_title (groundingChunks it))) = places"
    by (simp add: assms titles_place_titles Array_from_Set_first_seen)
  have nonempty: "[] \<notin> set places"
    using place_titles_not_Nil [of "[]" "groundingChunks it"] by (auto simp: assms set_first_seen)
  show ?thesis
  proof (cases places)
    case Nil
    then show ?thesis
      unfolding getFullRouteUrl_def by (simp add: places)
  next
    case (Cons origin rest)
    note outer = Cons
    show ?thesis
    proof (cases rest)
      case Nil
      with outer show ?thesis
        unfolding getFullRouteUrl_def by (simp add: places)
    next
      case (Cons p ps)
      show ?thesis
      proof (cases "ps = []")
        case True
        with outer Cons show ?thesis
          unfolding getFullRouteUrl_def by (simp add: places)
      next
        case False
        have interior: "slice 1 (- 1) places = butlast (p # ps)"
          by (simp add: slice_interior outer Cons)
        have "[] \<notin> set (butlast (p # ps))"
          using nonempty outer Cons by (auto dest: in_set_butlastD)
        then have "[] \<notin> set (map encodeURIComponent (butlast (p # ps)))"
          using encodeURIComponent_Nil by (metis (no_types) imageE list.set_map)
        moreover from False have "map encodeURIComponent (butlast (p # ps)) \<noteq> []"
          by simp
        ultimately have "join ''|'' (map encodeURIComponent (butlast (p # ps))) \<noteq> []"
          by (rule join_not_Nil [rotated])
        moreover have "places ! (length places - 1) = last (p # ps)"
          using outer Cons by (simp add: last_conv_nth)
        ultimately show ?thesis
          using outer Cons False interior
          unfolding getFullRouteUrl_def
          by (simp add: places Let_def join_pipe_delimited del: butlast.simps last.simps)
      qed
    qed
  qed
qed

text \<open>
  C1. For every grounded itinerary, the places of the route are the titles of the
  attached place references, each kept at its first occurrence (they are distinct, and
  the same titles as a set). With no place there is no URL; with one place the URL is
  the single-point search URL of that place, URI-encoded; with two or more it is the
  directions URL from the first place to the last, walking, whose \<open>waypoints\<close>
  parameter lists the places in between in order, pipe-delimited, and is absent when
  there are exactly two places.
\<close>

theorem route_url_derivation:
  "let places = first_seen (place_titles (groundingChunks it)) in
     distinct places \<and> set places = set (place_titles (groundingChunks it)) \<and>
     getFullRouteUrl (Some it) =
       (case places of
          [] \<Rightarrow> None
        | [p] \<Rightarrow> Some (''https://www.google.com/maps/search/?api=1&query='' @ encodeURIComponent p)
        | origin # p # ps \<Rightarrow>
            Some (''https://www.google.com/maps/dir/?api=1&origin='' @ encodeURIComponent origin @
                  ''&destination='' @ encodeURIComponent (last (p # ps)) @
                  (if ps = [] then []
                   else ''&waypoints='' @ pipe_delimited (map encodeURIComponent (butlast (p # ps)))) @
                  ''&travelmode=walking''))"
  unfolding Let_def
  using route_of_places [OF refl, of it] distinct_first_seen set_first_seen by blast

theorem route_url_derivation_witness:
  "first_seen (place_titles (groundingChunks example_itinerary)) = [''A'', ''B'', ''C''] \<and>
   getFullRouteUrl (Some example_itinerary) =
     Some ''https://www.google.com/maps/dir/?api=1&origin=A&destination=C&waypoints=B&travelmode=walking''"
  using route_url_derivation [of example_itinerary]
  by (simp add: example_itinerary_def place_chunk_def place_titles_def encodeURIComponent_def
      encode_byte_def uriUnreserved_def)


section \<open>Facts about the structured-mode handler\<close>

lemma getAiClient_missing:
  assumes "credential e = None \<or> credential e = Some [] \<or> credential e = Some ''MY_GEMINI_API_KEY''"
  shows "getAiClient e = Inl (ConfigurationError
    ''Gemini API Key is missing or invalid. Please check your AI Studio secrets.'')"
  using assms by (auto simp: getAiClient_def)

text \<open>
  C3, as stated, fails: the grounded service does not compare its key with the
  placeholder, so with the placeholder as key it calls the service, and the failure is
  the rejection of that call.
\<close>

theorem grounded_service_calls_with_placeholder_counterexample:
  "generateWalkingTour_part_002 rejecting (Some ''MY_GEMINI_API_KEY'') food_request =
     (Inl (UpstreamError ''API key not valid. Please pass a valid API key.''),
      [(Some ''MY_GEMINI_API_KEY'', params_part_002 food_request)])"
  by (simp add: generateWalkingTour_part_002_def rejecting_def)

text \<open>
  C3, amended. In the structured-mode handler, when the credential
  (\<open>GEMINI_API_KEY\<close>, else \<open>API_KEY\<close>) is missing, empty or the placeholder, the
  operation fails with the configuration error and has made no call to the service.
\<close>

theorem missing_credential_fails_before_any_call:
  assumes "credential e = None \<or> credential e = Some [] \<or> credential e = Some ''MY_GEMINI_API_KEY''"
  shows "generate_tour rt e generateContent request =
           (Inl (ConfigurationError
              ''Gemini API Key is missing or invalid. Please check your AI Studio secrets.''), []) \<and>
         snd (post_generate_tour rt e generateContent request) = []"
  using getAiClient_missing [OF assms]
  by (simp add: generate_tour_def post_generate_tour_def)

theorem missing_credential_fails_before_any_call_witness:
  "credential placeholder_env = Some ''MY_GEMINI_API_KEY'' \<and>
   generate_tour example_runtime placeholder_env rejecting food_request =
     (Inl (ConfigurationError
        ''Gemini API Key is missing or invalid. Please check your AI Studio secrets.''), [])"
proof -
  have c: "credential placeholder_env = Some ''MY_GEMINI_API_KEY''"
    by (simp add: credential_def placeholder_env_def truthy_string_def)
  then have "credential placeholder_env = None \<or> credential placeholder_env = Some [] \<or>
    credential placeholder_env = Some ''MY_GEMINI_API_KEY''"
    by simp
  from missing_credential_fails_before_any_call [OF this] c show ?thesis
    by simp
qed

lemma lookup_update: "lookup (AList.update k v ps) k' = (if k' = k then v else lookup ps k')"
  by (simp add: lookup_def update_conv')

lemma lookup_missing: "map_of ps k = None \<Longrightarrow> lookup ps k = JUndefined"
  by (simp add: lookup_def)

lemma lookup_default_array:
  "lookup (default_array k ps) k' =
     (if k' = k \<and> \<not> truthy (lookup ps k) then JArr [] else lookup ps k')"
  by (simp add: default_array_def lookup_update)

lemma map_of_default_array: "k' \<noteq> k \<Longrightarrow> map_of (default_array k ps) k' = map_of ps k'"
  by (simp add: default_array_def update_conv')

lemma those_map_Some:
  "those (map f xs) = Some ys \<longleftrightarrow> list_all2 (\<lambda>x y. f x = Some y) xs ys"
proof (induction xs arbitrary: ys)
  case Nil
  then show ?case by auto
next
  case (Cons x xs)
  then show ?case
    by (cases ys) (auto split: option.splits)
qed

lemma array_map_empty: "array_map f (JArr []) = Some (JArr [])"
  by (simp add: array_map_def)

lemma array_map_Some:
  "array_map f v = Some w \<longleftrightarrow>
     (\<exists>xs ys. v = JArr xs \<and> w = JArr ys \<and> list_all2 (\<lambda>x y. f x = Some y) xs ys)"
  by (cases v) (auto simp: array_map_def those_map_Some)

lemma not_available:
  assumes "MAPS_KEY = None \<or> (\<exists>k. MAPS_KEY = Some k \<and> trim k = [])"
  shows "\<not> maps_key_available MAPS_KEY"
  using assms by (auto simp: maps_key_available_def)

lemma parse_response_syntax_error:
  "JSON_parse rt rawText = None \<Longrightarrow>
   parse_response rt MAPS_KEY rawText = Inl (ParseError ''Failed to parse AI response as JSON'')"
  by (simp add: parse_response_def)

lemma parse_response_object_unavailable:
  assumes "JSON_parse rt rawText = Some (JObj ps)" and "\<not> maps_key_available MAPS_KEY"
  shows "parse_response rt MAPS_KEY rawText =
           Inr (JObj (default_array ''directions'' (default_array ''stops'' ps)))"
  using assms by (simp add: parse_response_def)

lemma parse_response_object_available:
  assumes "JSON_parse rt rawText = Some (JObj ps)" and "maps_key_available (Some key)"
  shows "parse_response rt (Some key) rawText =
           (case enrich rt key (default_array ''directions'' (default_array ''stops'' ps)) of
              None \<Rightarrow> Inl (ParseError ''Failed to parse AI response as JSON'')
            | Some tour \<Rightarrow> Inr (JObj tour))"
  using assms by (simp add: parse_response_def split: option.splits)

text \<open>
  C4. For every response body that parses as a JSON object with neither a \<open>stops\<close> nor
  a \<open>directions\<close> property, whatever the maps key, the resolver returns an object (no
  error) whose \<open>stops\<close> and \<open>directions\<close> are both the empty array; every other
  property is as parsed.
\<close>

theorem missing_stops_and_directions_default_to_empty:
  assumes "JSON_parse rt rawText = Some (JObj ps)"
    and "map_of ps ''stops'' = None" and "map_of ps ''directions'' = None"
  shows "\<exists>tour. parse_response rt MAPS_KEY rawText = Inr (JObj tour) \<and>
           lookup tour ''stops'' = JArr [] \<and> lookup tour ''directions'' = JArr [] \<and>
           (\<forall>k. k \<noteq> ''stops'' \<and> k \<noteq> ''directions'' \<longrightarrow> map_of tour k = map_of ps k)"
proof -
  define ps2 where "ps2 = default_array ''directions'' (default_array ''stops'' ps)"
  have stops: "lookup ps2 ''stops'' = JArr []" and directions: "lookup ps2 ''directions'' = JArr []"
    using assms(2,3) by (simp_all add: ps2_def lookup_default_array lookup_missing)
  have others: "map_of ps2 k = map_of ps k" if "k \<noteq> ''stops''" "k \<noteq> ''directions''" for k
    using that by (simp add: ps2_def map_of_default_array)
  show ?thesis
  proof (cases "maps_key_available MAPS_KEY")
    case False
    with assms(1) have "parse_response rt MAPS_KEY rawText = Inr (JObj ps2)"
      unfolding ps2_def by (rule parse_response_object_unavailable)
    with stops directions others show ?thesis by blast
  next
    case True
    then obtain key where key: "MAPS_KEY = Some key"
      by (auto simp: maps_key_available_def truthy_string_def split: option.splits)
    define tour where
      "tour = AList.update ''directions'' (JArr []) (AList.update ''stops'' (JArr []) ps2)"
    have "enrich rt key ps2 = Some tour"
      by (simp add: enrich_def stops directions array_map_empty lookup_update tour_def)
    with assms(1) True have "parse_response rt MAPS_KEY rawText = Inr (JObj tour)"
      unfolding key by (simp add: parse_response_object_available ps2_def)
    moreover have "lookup tour ''stops'' = JArr []" "lookup tour ''directions'' = JArr []"
      by (simp_all add: tour_def lookup_update)
    moreover have "map_of tour k = map_of ps k" if "k \<noteq> ''stops''" "k \<noteq> ''directions''" for k
      using that others [of k] by (simp add: tour_def update_conv')
    ultimately show ?thesis by blast
  qed
qed


lemma example_key_available: "maps_key_available (Some ''maps-key'')"
  by code_simp

lemma blank_key_trim: "trim ''  '' = []"
  by code_simp

theorem missing_stops_and_directions_default_to_empty_witness:
  \<open>parse_response example_runtime (Some ''maps-key'') ''{"tourName":"Old town"}'' =
     Inr (JObj [(''tourName'', JStr ''Old town''), (''stops'', JArr []), (''directions'', JArr [])])\<close>
proof -
  have parsed: \<open>JSON_parse example_runtime ''{"tourName":"Old town"}'' = Some (JObj [(''tourName'', JStr ''Old town'')])\<close>
    by (simp add: example_runtime_def)
  have "map_of [(''tourName'', JStr ''Old town'')] ''stops'' = None"
    "map_of [(''tourName'', JStr ''Old town'')] ''directions'' = None"
    by simp_all
  from missing_stops_and_directions_default_to_empty [OF parsed this, of "Some ''maps-key''"]
  show ?thesis
    by (auto simp: parse_response_def parsed example_key_available default_array_def lookup_def
        enrich_def array_map_def)
qed

lemma generate_tour_upstream:
  assumes "getAiClient e = Inr key"
    and "generateContent (Some key) (params_server request) = Inl m"
  shows "generate_tour rt e generateContent request =
           (Inl (UpstreamError m), [(Some key, params_server request)])"
  using assms by (simp add: generate_tour_def)

lemma generate_tour_answer:
  assumes "getAiClient e = Inr key"
    and "generateContent (Some key) (params_server request) = Inr response"
  shows "generate_tour rt e generateContent request =
           (parse_response rt (GOOGLE_MAPS_API_KEY e)
              (case response_text response of None \<Rightarrow> [] | Some t \<Rightarrow> t),
            [(Some key, params_server request)])"
  using assms by (simp add: generate_tour_def)

lemma working_env_client: "getAiClient working_env = Inr ''secret''"
  by (simp add: getAiClient_def credential_def working_env_def truthy_string_def)

lemma error_response_upstream:
  "error_response (UpstreamError m) = error_response (ParseError ''Failed to parse AI response as JSON'') \<longleftrightarrow>
     m = ''Failed to parse AI response as JSON''"
  by (auto simp: error_response_def)

lemma post_generate_tour_failure:
  "fst (generate_tour rt e generateContent request) = Inl err \<Longrightarrow>
   fst (post_generate_tour rt e generateContent request) = error_response err"
  by (cases "generate_tour rt e generateContent request") (simp add: post_generate_tour_def)

text \<open>
  C5, as stated, fails: the parse failure is a plain \<open>Error\<close> that only its message
  tells apart from a failure of the model call. When the service rejects the call with
  that same message, the error that reaches the outer \<open>catch\<close> has the same message as
  for a body that does not parse, and the endpoint answers the same.
\<close>

theorem parse_failure_distinguishable_counterexample:
  "JSON_parse example_runtime ''Here is your tour'' = None \<and>
   map_sum message id
     (fst (generate_tour example_runtime working_env (answering ''Here is your tour'') nature_request)) =
   map_sum message id
     (fst (generate_tour example_runtime working_env
        (rejecting_with ''Failed to parse AI response as JSON'') nature_request)) \<and>
   post_generate_tour example_runtime working_env (answering ''Here is your tour'') nature_request =
   post_generate_tour example_runtime working_env
     (rejecting_with ''Failed to parse AI response as JSON'') nature_request"
  by (simp add: generate_tour_def post_generate_tour_def working_env_client answering_def
      rejecting_with_def parse_response_def example_runtime_def error_response_def)

text \<open>
  C5, amended. For every response body that \<open>JSON.parse\<close> rejects, the resolver fails
  with the error of the inner \<open>catch\<close>, whose message is
  \<open>Failed to parse AI response as JSON\<close>, whatever the maps key; so does the whole
  operation when the client is configured and the service answers with that body. A
  rejection by the service reaches the outer \<open>catch\<close> with the message the client
  library gave it; the two failures are told apart by the message only: the endpoint
  answers them differently exactly when the messages differ.
\<close>

theorem invalid_json_is_a_parse_error:
  assumes "JSON_parse rt rawText = None"
  shows "parse_response rt MAPS_KEY rawText = Inl (ParseError ''Failed to parse AI response as JSON'') \<and>
         (getAiClient e = Inr key \<and>
          generateContent (Some key) (params_server request) = Inr response \<and>
          (case response_text response of None \<Rightarrow> [] | Some t \<Rightarrow> t) = rawText \<longrightarrow>
          fst (generate_tour rt e generateContent request) =
            Inl (ParseError ''Failed to parse AI response as JSON'') \<and>
          (\<forall>generateContent' m'. generateContent' (Some key) (params_server request) = Inl m' \<longrightarrow>
             fst (generate_tour rt e generateContent' request) = Inl (UpstreamError m') \<and>
             (fst (post_generate_tour rt e generateContent' request) =
              fst (post_generate_tour rt e generateContent request) \<longleftrightarrow>
                m' = ''Failed to parse AI response as JSON'')))"
proof (intro conjI impI allI)
  show "parse_response rt MAPS_KEY rawText = Inl (ParseError ''Failed to parse AI response as JSON'')"
    using assms by (rule parse_response_syntax_error)
next
  assume a: "getAiClient e = Inr key \<and>
          generateContent (Some key) (params_server request) = Inr response \<and>
          (case response_text response of None \<Rightarrow> [] | Some t \<Rightarrow> t) = rawText"
  then show p: "fst (generate_tour rt e generateContent request) =
            Inl (ParseError ''Failed to parse AI response as JSON'')"
    using parse_response_syntax_error [OF assms, of "GOOGLE_MAPS_API_KEY e"]
    by (auto simp: generate_tour_answer)
  fix generateContent' :: models and m'
  assume "generateContent' (Some key) (params_server request) = Inl m'"
  with a show u: "fst (generate_tour rt e generateContent' request) = Inl (UpstreamError m')"
    by (simp add: generate_tour_upstream)
  show "fst (post_generate_tour rt e generateContent' request) =
          fst (post_generate_tour rt e generateContent request) \<longleftrightarrow>
        m' = ''Failed to parse AI response as JSON''"
    by (simp add: post_generate_tour_failure [OF p] post_generate_tour_failure [OF u]
        error_response_upstream)
qed

theorem invalid_json_is_a_parse_error_witness:
  "JSON_parse example_runtime ''Here is your tour'' = None \<and>
   fst (generate_tour example_runtime working_env (answering ''Here is your tour'') nature_request) =
     Inl (ParseError ''Failed to parse AI response as JSON'') \<and>
   fst (generate_tour example_runtime working_env rejecting nature_request) =
     Inl (UpstreamError ''API key not valid. Please pass a valid API key.'') \<and>
   fst (post_generate_tour example_runtime working_env rejecting nature_request) \<noteq>
   fst (post_generate_tour example_runtime working_env (answering ''Here is your tour'') nature_request)"
proof -
  have none: "JSON_parse example_runtime ''Here is your tour'' = None"
    by (simp add: example_runtime_def)
  from invalid_json_is_a_parse_error [OF none, where MAPS_KEY = None and e = working_env
      and key = "''secret''" and generateContent = "answering ''Here is your tour''"
      and request = nature_request
      and response = "\<lparr>response_text = Some ''Here is your tour'', response_groundingChunks = None\<rparr>"]
  have "fst (generate_tour example_runtime working_env (answering ''Here is your tour'') nature_request) =
            Inl (ParseError ''Failed to parse AI response as JSON'') \<and>
          (\<forall>generateContent' m'. generateContent' (Some ''secret'') (params_server nature_request) = Inl m' \<longrightarrow>
             fst (generate_tour example_runtime working_env generateContent' nature_request) = Inl (UpstreamError m') \<and>
             (fst (post_generate_tour example_runtime working_env generateContent' nature_request) =
              fst (post_generate_tour example_runtime working_env (answering ''Here is your tour'') nature_request) \<longleftrightarrow>
                m' = ''Failed to parse AI response as JSON''))"
    by (simp add: working_env_client answering_def)
  moreover have "rejecting (Some ''secret'') (params_server nature_request) =
      Inl ''API key not valid. Please pass a valid API key.''"
    by (simp add: rejecting_def)
  ultimately show ?thesis
    using none by auto
qed

text \<open>
  C8. Every failure of the endpoint, whichever of the three kinds the error is, gives
  status 500 and a body that is one object with the single property \<open>error\<close>, a string
  that is not empty: the message of the error, or a fixed text when it has none. The
  response depends on the message only, not on the kind; and a missing credential, a
  rejection by the service and a body that does not parse are each such a failure.
\<close>

theorem every_failure_is_one_error_shape:
  "(fst (generate_tour rt e generateContent request) = Inl err \<longrightarrow>
      status (fst (post_generate_tour rt e generateContent request)) = 500 \<and>
      (\<exists>m. m \<noteq> [] \<and> (message err \<noteq> [] \<longrightarrow> m = message err) \<and>
           body (fst (post_generate_tour rt e generateContent request)) = JObj [(''error'', JStr m)])) \<and>
   error_response (ConfigurationError m') = error_response (UpstreamError m') \<and>
   error_response (UpstreamError m') = error_response (ParseError m') \<and>
   (getAiClient e = Inl err' \<longrightarrow> fst (generate_tour rt e generateContent request) = Inl err') \<and>
   (getAiClient e = Inr key \<and> generateContent (Some key) (params_server request) = Inl m' \<longrightarrow>
      fst (generate_tour rt e generateContent request) = Inl (UpstreamError m')) \<and>
   (getAiClient e = Inr key \<and> generateContent (Some key) (params_server request) = Inr response \<and>
    JSON_parse rt (case response_text response of None \<Rightarrow> [] | Some t \<Rightarrow> t) = None \<longrightarrow>
      fst (generate_tour rt e generateContent request) =
        Inl (ParseError ''Failed to parse AI response as JSON''))"
proof -
  have "status (fst (post_generate_tour rt e generateContent request)) = 500 \<and>
      (\<exists>m. m \<noteq> [] \<and> (message err \<noteq> [] \<longrightarrow> m = message err) \<and>
           body (fst (post_generate_tour rt e generateContent request)) = JObj [(''error'', JStr m)])"
    if "fst (generate_tour rt e generateContent request) = Inl err"
  proof -
    from that obtain calls where "generate_tour rt e generateContent request = (Inl err, calls)"
      by (cases "generate_tour rt e generateContent request") simp
    then have "fst (post_generate_tour rt e generateContent request) = error_response err"
      by (simp add: post_generate_tour_def)
    then show ?thesis
      by (simp add: error_response_def)
  qed
  moreover have "fst (generate_tour rt e generateContent request) = Inl err'"
    if "getAiClient e = Inl err'"
    using that by (simp add: generate_tour_def)
  ultimately show ?thesis
    by (auto simp: error_response_def generate_tour_upstream generate_tour_answer
        parse_response_syntax_error)
qed

theorem every_failure_is_one_error_shape_witness:
  "post_generate_tour example_runtime placeholder_env rejecting food_request =
     (\<lparr>status = 500,
       body = JObj [(''error'', JStr ''Gemini API Key is missing or invalid. Please check your AI Studio secrets.'')]\<rparr>, []) \<and>
   fst (post_generate_tour example_runtime working_env rejecting food_request) =
     \<lparr>status = 500, body = JObj [(''error'', JStr ''API key not valid. Please pass a valid API key.'')]\<rparr> \<and>
   fst (post_generate_tour example_runtime working_env (answering ''Here is your tour'') food_request) =
     \<lparr>status = 500, body = JObj [(''error'', JStr ''Failed to parse AI response as JSON'')]\<rparr>"
proof -
  have a: "generate_tour example_runtime placeholder_env rejecting food_request =
     (Inl (ConfigurationError ''Gemini API Key is missing or invalid. Please check your AI Studio secrets.''), [])"
    by (simp add: generate_tour_def getAiClient_def credential_def placeholder_env_def truthy_string_def)
  have b: "fst (generate_tour example_runtime working_env rejecting food_request) =
     Inl (UpstreamError ''API key not valid. Please pass a valid API key.'')"
    by (simp add: generate_tour_def working_env_client rejecting_def)
  have c: "fst (generate_tour example_runtime working_env (answering ''Here is your tour'') food_request) =
     Inl (ParseError ''Failed to parse AI response as JSON'')"
    by (simp add: generate_tour_def working_env_client answering_def parse_response_def example_runtime_def)
  from a have a': "fst (generate_tour example_runtime placeholder_env rejecting food_request) =
     Inl (ConfigurationError ''Gemini API Key is missing or invalid. Please check your AI Studio secrets.'')"
    by simp
  have "snd (post_generate_tour example_runtime placeholder_env rejecting food_request) = []"
    by (simp add: post_generate_tour_def a)
  moreover note
    every_failure_is_one_error_shape [THEN conjunct1, rule_format, OF a']
    every_failure_is_one_error_shape [THEN conjunct1, rule_format, OF b]
    every_failure_is_one_error_shape [THEN conjunct1, rule_format, OF c]
  ultimately show ?thesis
    by (auto simp: prod_eq_iff http_response.equality)
qed

lemma has_property_with_property:
  "has_property (with_property k x ps) k \<longleftrightarrow> x \<noteq> JUndefined"
  by (simp add: has_property_def with_property_def update_conv' delete_conv')

lemma has_property_with_property_other:
  "k' \<noteq> k \<Longrightarrow> has_property (with_property k x ps) k' \<longleftrightarrow> map_of ps k' \<noteq> None"
  by (simp add: has_property_def with_property_def update_conv' delete_conv')

lemma stop_imageUrl_defined:
  assumes "stop_imageUrl rt key stop = Some v"
  shows "v \<noteq> JUndefined \<longleftrightarrow> truthy (field stop ''lat'') \<and> truthy (field stop ''lng'')"
  using assms
  by (auto simp: stop_imageUrl_def field_def split: option.splits if_splits)

lemma direction_mapUrl_defined:
  assumes "direction_mapUrl rt key dir = Some v"
  shows "v \<noteq> JUndefined \<longleftrightarrow> truthy (field dir ''fromLatLng'') \<and> truthy (field dir ''toLatLng'')"
  using assms
  by (auto simp: direction_mapUrl_def field_def split: option.splits if_splits)

lemma enrich_stop_imageUrl:
  assumes "enrich_stop rt key stop = Some stop'"
  shows "has_property stop' ''imageUrl'' \<longleftrightarrow>
           truthy (field stop ''lat'') \<and> truthy (field stop ''lng'')"
  using assms stop_imageUrl_defined [of rt key stop]
  by (auto simp: enrich_stop_def has_property_with_property)

lemma enrich_direction_mapUrl:
  assumes "enrich_direction rt key dir = Some dir'"
  shows "has_property dir' ''mapUrl'' \<longleftrightarrow>
           truthy (field dir ''fromLatLng'') \<and> truthy (field dir ''toLatLng'')"
  using assms direction_mapUrl_defined [of rt key dir]
  by (auto simp: enrich_direction_def has_property_with_property)

lemma enrich_stop_falsy:
  assumes "\<not> truthy (lookup ps ''lat'') \<or> \<not> truthy (lookup ps ''lng'')"
  shows "enrich_stop rt key (JObj ps) = Some (JObj (AList.delete ''imageUrl'' ps))"
  using assms by (auto simp: enrich_stop_def stop_imageUrl_def with_property_def)

lemma enrich_direction_falsy:
  assumes "\<not> truthy (lookup ps ''fromLatLng'') \<or> \<not> truthy (lookup ps ''toLatLng'')"
  shows "enrich_direction rt key (JObj ps) = Some (JObj (AList.delete ''mapUrl'' ps))"
  using assms by (auto simp: enrich_direction_def direction_mapUrl_def with_property_def)

lemma items_falsy: "\<not> truthy v \<Longrightarrow> items v = []"
  by (cases v) (simp_all add: items_def)

lemma items_default_array:
  "items (lookup (default_array k ps) k') = items (lookup ps k')"
  by (simp add: lookup_default_array items_falsy) (simp add: items_def)

lemma enrich_Some:
  assumes "enrich rt key ps = Some tour"
  shows "list_all2 (\<lambda>x y. enrich_stop rt key x = Some y)
           (items (lookup ps ''stops'')) (items (lookup tour ''stops'')) \<and>
         list_all2 (\<lambda>x y. enrich_direction rt key x = Some y)
           (items (lookup ps ''directions'')) (items (lookup tour ''directions''))"
proof -
  from assms obtain stops directions
    where stops: "array_map (enrich_stop rt key) (lookup ps ''stops'') = Some stops"
      and directions: "array_map (enrich_direction rt key) (lookup ps ''directions'') = Some directions"
      and tour: "tour = AList.update ''directions'' directions (AList.update ''stops'' stops ps)"
    by (auto simp: enrich_def lookup_update split: option.splits)
  from stops have "list_all2 (\<lambda>x y. enrich_stop rt key x = Some y)
      (items (lookup ps ''stops'')) (items stops)"
    by (auto simp: array_map_Some items_def)
  moreover from directions have "list_all2 (\<lambda>x y. enrich_direction rt key x = Some y)
      (items (lookup ps ''directions'')) (items directions)"
    by (auto simp: array_map_Some items_def)
  ultimately show ?thesis
    by (simp add: tour lookup_update)
qed

lemma field_JObj: "field (JObj ps) k = lookup ps k"
  by (simp add: field_def)

text \<open>
  C7, as stated, fails: with no maps key the handler changes no stop, so a stop that
  the body itself gives an \<open>imageUrl\<close> is returned with it.
\<close>

theorem returned_stop_lacks_imageUrl_counterexample:
  \<open>parse_response supplied_image_runtime None
     ''{"stops":[{"name":"Tower","lat":48,"lng":2,"imageUrl":"x"}]}'' =
     Inr (JObj [(''stops'', JArr [JObj [(''name'', JStr ''Tower''), (''lat'', JNum 48), (''lng'', JNum 2),
                                        (''imageUrl'', JStr ''x'')]]),
                (''directions'', JArr [])]) \<and>
   has_property (JObj [(''name'', JStr ''Tower''), (''lat'', JNum 48), (''lng'', JNum 2),
                       (''imageUrl'', JStr ''x'')]) ''imageUrl''\<close>
  by (simp add: parse_response_def supplied_image_runtime_def maps_key_available_def
      truthy_string_def default_array_def lookup_def has_property_def)

text \<open>
  C7, amended. For every body that parses as an object, when the maps key is absent or
  blank the resolver raises no error and adds no field: it returns the parsed object
  with the two defaults and nothing else changed, so the returned stops and directions
  are those of the body, and a returned stop has an \<open>imageUrl\<close>, or a returned direction
  a \<open>mapUrl\<close>, only if the body gave it one.
\<close>

theorem no_maps_key_no_enrichment:
  assumes "MAPS_KEY = None \<or> (\<exists>k. MAPS_KEY = Some k \<and> trim k = [])"
    and "JSON_parse rt rawText = Some (JObj ps)"
  shows "\<exists>tour. parse_response rt MAPS_KEY rawText = Inr (JObj tour) \<and>
           tour = default_array ''directions'' (default_array ''stops'' ps) \<and>
           items (lookup tour ''stops'') = items (lookup ps ''stops'') \<and>
           items (lookup tour ''directions'') = items (lookup ps ''directions'') \<and>
           (\<forall>k. k \<noteq> ''stops'' \<and> k \<noteq> ''directions'' \<longrightarrow> map_of tour k = map_of ps k)"
proof -
  from assms(1) have "\<not> maps_key_available MAPS_KEY"
    by (rule not_available)
  with assms(2) have "parse_response rt MAPS_KEY rawText =
      Inr (JObj (default_array ''directions'' (default_array ''stops'' ps)))"
    by (rule parse_response_object_unavailable)
  then show ?thesis
    by (simp add: items_default_array map_of_default_array)
qed

theorem no_maps_key_no_enrichment_witness:
  \<open>trim ''  '' = [] \<and>
   parse_response example_runtime (Some ''  '') ''{"stops":[{"name":"Tower","lat":48,"lng":2}]}'' =
     Inr (JObj [(''stops'', JArr [JObj [(''name'', JStr ''Tower''), (''lat'', JNum 48), (''lng'', JNum 2)]]),
                (''directions'', JArr [])])\<close>
proof -
  let ?ps = "[(''stops'', JArr [JObj [(''name'', JStr ''Tower''), (''lat'', JNum 48), (''lng'', JNum 2)]])]"
  have blank: "Some ''  '' = None \<or> (\<exists>k. Some ''  '' = Some k \<and> trim k = [])"
    by (simp add: blank_key_trim)
  have parsed: \<open>JSON_parse example_runtime ''{"stops":[{"name":"Tower","lat":48,"lng":2}]}'' = Some (JObj ?ps)\<close>
    by (simp add: example_runtime_def)
  from no_maps_key_no_enrichment [OF blank parsed] show ?thesis
    by (auto simp: blank_key_trim default_array_def lookup_def items_def)
qed

text \<open>
  C9. With the maps key available: a stop whose \<open>lat\<close> or \<open>lng\<close> is 0 or missing is
  returned without an \<open>imageUrl\<close>, and a direction whose \<open>fromLatLng\<close> or \<open>toLatLng\<close>
  is missing is returned without a \<open>mapUrl\<close>; and whenever the resolver returns a tour
  for a body that parsed as an object, each returned stop is the enrichment of the
  parsed stop at the same position and has an \<open>imageUrl\<close> exactly when both \<open>lat\<close> and
  \<open>lng\<close> of the parsed stop are truthy, and each returned direction has a \<open>mapUrl\<close>
  exactly when both \<open>fromLatLng\<close> and \<open>toLatLng\<close> of the parsed direction are truthy.
\<close>

theorem enrichment_needs_truthy_coordinates:
  "(lookup stop_ps ''lat'' \<in> {JNum 0, JUndefined} \<or> lookup stop_ps ''lng'' \<in> {JNum 0, JUndefined} \<longrightarrow>
      enrich_stop rt key (JObj stop_ps) = Some (JObj (AList.delete ''imageUrl'' stop_ps)) \<and>
      \<not> has_property (JObj (AList.delete ''imageUrl'' stop_ps)) ''imageUrl'') \<and>
   (lookup dir_ps ''fromLatLng'' = JUndefined \<or> lookup dir_ps ''toLatLng'' = JUndefined \<longrightarrow>
      enrich_direction rt key (JObj dir_ps) = Some (JObj (AList.delete ''mapUrl'' dir_ps)) \<and>
      \<not> has_property (JObj (AList.delete ''mapUrl'' dir_ps)) ''mapUrl'') \<and>
   (maps_key_available (Some key) \<and> JSON_parse rt rawText = Some (JObj ps) \<and>
    parse_response rt (Some key) rawText = Inr tour \<longrightarrow>
      list_all2 (\<lambda>stop stop'. enrich_stop rt key stop = Some stop' \<and>
                   (has_property stop' ''imageUrl'' \<longleftrightarrow>
                      truthy (field stop ''lat'') \<and> truthy (field stop ''lng'')))
        (items (lookup ps ''stops'')) (items (field tour ''stops'')) \<and>
      list_all2 (\<lambda>dir dir'. enrich_direction rt key dir = Some dir' \<and>
                   (has_property dir' ''mapUrl'' \<longleftrightarrow>
                      truthy (field dir ''fromLatLng'') \<and> truthy (field dir ''toLatLng'')))
        (items (lookup ps ''directions'')) (items (field tour ''directions'')))"
proof (intro conjI impI)
  assume "lookup stop_ps ''lat'' \<in> {JNum 0, JUndefined} \<or> lookup stop_ps ''lng'' \<in> {JNum 0, JUndefined}"
  then have "\<not> truthy (lookup stop_ps ''lat'') \<or> \<not> truthy (lookup stop_ps ''lng'')"
    by auto
  then show "enrich_stop rt key (JObj stop_ps) = Some (JObj (AList.delete ''imageUrl'' stop_ps))"
    by (rule enrich_stop_falsy)
next
  show "\<not> has_property (JObj (AList.delete ''imageUrl'' stop_ps)) ''imageUrl''"
    by (simp add: has_property_def delete_conv')
next
  assume "lookup dir_ps ''fromLatLng'' = JUndefined \<or> lookup dir_ps ''toLatLng'' = JUndefined"
  then have "\<not> truthy (lookup dir_ps ''fromLatLng'') \<or> \<not> truthy (lookup dir_ps ''toLatLng'')"
    by auto
  then show "enrich_direction rt key (JObj dir_ps) = Some (JObj (AList.delete ''mapUrl'' dir_ps))"
    by (rule enrich_direction_falsy)
next
  show "\<not> has_property (JObj (AList.delete ''mapUrl'' dir_ps)) ''mapUrl''"
    by (simp add: has_property_def delete_conv')
next
  assume a: "maps_key_available (Some key) \<and> JSON_parse rt rawText = Some (JObj ps) \<and>
    parse_response rt (Some key) rawText = Inr tour"
  define ps2 where "ps2 = default_array ''directions'' (default_array ''stops'' ps)"
  from a obtain tour_ps where tour: "tour = JObj tour_ps" and e: "enrich rt key ps2 = Some tour_ps"
    by (auto simp: parse_response_object_available ps2_def split: option.splits)
  have stops: "items (lookup ps2 ''stops'') = items (lookup ps ''stops'')"
    and directions: "items (lookup ps2 ''directions'') = items (lookup ps ''directions'')"
    by (simp_all add: ps2_def items_default_array)
  from enrich_Some [OF e] have
    "list_all2 (\<lambda>x y. enrich_stop rt key x = Some y)
       (items (lookup ps ''stops'')) (items (field tour ''stops''))"
    "list_all2 (\<lambda>x y. enrich_direction rt key x = Some y)
       (items (lookup ps ''directions'')) (items (field tour ''directions''))"
    by (simp_all add: stops directions tour field_JObj)
  then show
    "list_all2 (\<lambda>stop stop'. enrich_stop rt key stop = Some stop' \<and>
                   (has_property stop' ''imageUrl'' \<longleftrightarrow>
                      truthy (field stop ''lat'') \<and> truthy (field stop ''lng'')))
        (items (lookup ps ''stops'')) (items (field tour ''stops''))"
    "list_all2 (\<lambda>dir dir'. enrich_direction rt key dir = Some dir' \<and>
                   (has_property dir' ''mapUrl'' \<longleftrightarrow>
                      truthy (field dir ''fromLatLng'') \<and> truthy (field dir ''toLatLng'')))
        (items (lookup ps ''directions'')) (items (field tour ''directions''))"
    by (auto elim!: list_all2_mono simp: enrich_stop_imageUrl enrich_direction_mapUrl)
qed

lemma example_tower_response:
  \<open>parse_response example_runtime (Some ''maps-key'') ''{"stops":[{"name":"Tower","lat":48,"lng":2}]}'' =
     Inr (JObj [(''stops'', JArr [JObj [(''name'', JStr ''Tower''), (''lat'', JNum 48), (''lng'', JNum 2),
        (''imageUrl'', JStr ''https://maps.googleapis.com/maps/api/staticmap?center=48,2&zoom=17&size=800x450&markers=color:red%7C48,2&key=maps-key'')]]),
       (''directions'', JArr [])])\<close>
  by code_simp

theorem enrichment_needs_truthy_coordinates_witness:
  \<open>enrich_stop example_runtime ''maps-key'' (JObj [(''name'', JStr ''Gate''), (''lat'', JNum 0), (''lng'', JNum 2)]) =
     Some (JObj [(''name'', JStr ''Gate''), (''lat'', JNum 0), (''lng'', JNum 2)]) \<and>
   enrich_direction example_runtime ''maps-key'' (JObj [(''from'', JStr ''Gate''), (''to'', JStr ''Tower'')]) =
     Some (JObj [(''from'', JStr ''Gate''), (''to'', JStr ''Tower'')]) \<and>
   enrich_stop example_runtime ''maps-key'' (JObj [(''name'', JStr ''Tower''), (''lat'', JNum 48), (''lng'', JNum 2)]) =
     Some (JObj [(''name'', JStr ''Tower''), (''lat'', JNum 48), (''lng'', JNum 2),
        (''imageUrl'', JStr ''https://maps.googleapis.com/maps/api/staticmap?center=48,2&zoom=17&size=800x450&markers=color:red%7C48,2&key=maps-key'')])\<close>
proof -
  let ?gate = "[(''name'', JStr ''Gate''), (''lat'', JNum 0), (''lng'', JNum 2)]"
  let ?leg = "[(''from'', JStr ''Gate''), (''to'', JStr ''Tower'')]"
  let ?tower = "[(''name'', JStr ''Tower''), (''lat'', JNum 48), (''lng'', JNum 2)]"
  have parsed: \<open>JSON_parse example_runtime ''{"stops":[{"name":"Tower","lat":48,"lng":2}]}'' =
      Some (JObj [(''stops'', JArr [JObj ?tower])])\<close>
    by (simp add: example_runtime_def)
  let ?tour = \<open>JObj [(''stops'', JArr [JObj [(''name'', JStr ''Tower''), (''lat'', JNum 48), (''lng'', JNum 2),
        (''imageUrl'', JStr ''https://maps.googleapis.com/maps/api/staticmap?center=48,2&zoom=17&size=800x450&markers=color:red%7C48,2&key=maps-key'')]]),
       (''directions'', JArr [])]\<close>
  note enrichment_needs_truthy_coordinates [where stop_ps = ?gate and dir_ps = ?leg
      and rt = example_runtime and key = "''maps-key''"
      and rawText = \<open>''{"stops":[{"name":"Tower","lat":48,"lng":2}]}''\<close>
      and ps = "[(''stops'', JArr [JObj ?tower])]" and tour = ?tour]
  then show ?thesis
    using example_key_available parsed example_tower_response
    by (simp add: lookup_def AList.delete_eq items_def field_def)
qed

end
